theory Spec2Isabelle
  imports Main "HOL-Library.Word" "HOL-Library.AList"
begin

section \<open>Qt values used by the Qobuz service\<close>

subsection \<open>QString::number\<close>

text \<open>
  \<^verbatim>\<open>QString::number(n)\<close> prints an integer in base 10, with a leading minus sign for
  negative values. Strings are byte lists; all texts built by the service are ASCII.
\<close>

definition digit_char :: "nat \<Rightarrow> char" where
  "digit_char d = ''0123456789'' ! d"

function number_digits :: "nat \<Rightarrow> string" where
  "number_digits n =
     (if n < 10 then [digit_char n] else number_digits (n div 10) @ [digit_char (n mod 10)])"
  by pat_completeness auto
termination
  by (relation "measure id") auto

declare number_digits.simps [simp del]

definition QString_number :: "int \<Rightarrow> string" where
  "QString_number n =
     (if n < 0 then CHR ''-'' # number_digits (nat (- n)) else number_digits (nat n))"

text \<open>Reading a digit string back in base 10 (used to state what base the printer uses).\<close>

definition digit_value :: "char \<Rightarrow> nat" where
  "digit_value c = of_char c - 48"

definition decimal_value :: "string \<Rightarrow> nat" where
  "decimal_value cs = foldl (\<lambda>a c. 10 * a + digit_value c) 0 cs"

subsection \<open>QList::at\<close>

text \<open>
  \<^verbatim>\<open>QList::at(i)\<close> requires \<open>0 \<le> i < length\<close>; outside that range the access is an
  assertion failure (debug) or undefined behaviour (release). The model makes it an error
  value. \<^verbatim>\<open>QList::length()\<close> is a signed \<^verbatim>\<open>int\<close>, so \<open>length - 1\<close> is \<open>-1\<close> on the
  empty list.
\<close>

datatype error = IndexOutOfRange

definition QList_at :: "'a list \<Rightarrow> int \<Rightarrow> error + 'a" where
  "QList_at xs i =
     (if 0 \<le> i \<and> i < int (length xs) then Inr (xs ! nat i) else Inl IndexOutOfRange)"

subsection \<open>QVariant\<close>

text \<open>
  The values a JSON parser hands to the service: null (an invalid QVariant), booleans,
  integers, strings, lists and maps. Numbers with a fractional part are not modelled.
  A \<^verbatim>\<open>QVariantMap\<close> is a \<^verbatim>\<open>QMap<QString, QVariant>\<close>; reading a key that is absent
  yields a default-constructed (invalid) QVariant.
\<close>

datatype QVariant =
    QInvalid
  | QBool bool
  | QLongLong int
  | QString string
  | QVariantList "QVariant list"
  | QVariantMap "(string \<times> QVariant) list"

type_synonym QVariantMap = "(string \<times> QVariant) list"

definition map_value :: "QVariantMap \<Rightarrow> string \<Rightarrow> QVariant" where
  "map_value m k = (case map_of m k of None \<Rightarrow> QInvalid | Some v \<Rightarrow> v)"

text \<open>
  Conversions of Qt that the sources do not contain are parameters of the model:
  parsing a string as a number, the MD5 digest, and \<open>QDateTime_year\<close>, the calendar year
  in local time of the date that \<^verbatim>\<open>QDateTime::setTime_t\<close> makes of an unsigned number of
  seconds since the start of 1970.
\<close>

record Qt =
  QString_toLongLong :: "string \<Rightarrow> int"
  QString_toULongLong :: "string \<Rightarrow> 64 word"
  QDateTime_year :: "int \<Rightarrow> int"
  QCryptographicHash_Md5 :: "string \<Rightarrow> string"

definition toLower_char :: "char \<Rightarrow> char" where
  "toLower_char c =
     (case map_of (zip ''ABCDEFGHIJKLMNOPQRSTUVWXYZ'' ''abcdefghijklmnopqrstuvwxyz'') c of
        None \<Rightarrow> c | Some l \<Rightarrow> l)"

definition toLower :: "string \<Rightarrow> string" where
  "toLower s = map toLower_char s"

fun toBool :: "QVariant \<Rightarrow> bool" where
  "toBool (QBool b) = b"
| "toBool (QLongLong n) = (n \<noteq> 0)"
| "toBool (QString s) =
     (\<not> (toLower s = ''0'' \<or> toLower s = ''false'' \<or> s = []))"
| "toBool _ = False"

fun toString :: "QVariant \<Rightarrow> string" where
  "toString (QString s) = s"
| "toString (QLongLong n) = QString_number n"
| "toString (QBool b) = (if b then ''true'' else ''false'')"
| "toString _ = []"

text \<open>\<^verbatim>\<open>toInt\<close> narrows a 64-bit number to a 32-bit \<^verbatim>\<open>int\<close>.\<close>

definition to_int32 :: "int \<Rightarrow> int" where
  "to_int32 n = sint (word_of_int n :: 32 word)"

fun toInt :: "Qt \<Rightarrow> QVariant \<Rightarrow> int" where
  "toInt qt (QLongLong n) = to_int32 n"
| "toInt qt (QBool b) = (if b then 1 else 0)"
| "toInt qt (QString s) = to_int32 (QString_toLongLong qt s)"
| "toInt qt _ = 0"

fun toULongLong :: "Qt \<Rightarrow> QVariant \<Rightarrow> 64 word" where
  "toULongLong qt (QLongLong n) = word_of_int n"
| "toULongLong qt (QBool b) = (if b then 1 else 0)"
| "toULongLong qt (QString s) = QString_toULongLong qt s"
| "toULongLong qt _ = 0"

fun toMap :: "QVariant \<Rightarrow> QVariantMap" where
  "toMap (QVariantMap m) = m"
| "toMap _ = []"

fun toList :: "QVariant \<Rightarrow> QVariant list" where
  "toList (QVariantList l) = l"
| "toList _ = []"

text \<open>A \<^verbatim>\<open>QUrl\<close> built from a string keeps the text; other variants give the empty URL.\<close>

fun toUrl :: "QVariant \<Rightarrow> string" where
  "toUrl (QString s) = s"
| "toUrl _ = []"


section \<open>Songs projected from API responses\<close>

text \<open>
  The part of \<^verbatim>\<open>Song\<close> (core/song.h) that \<^verbatim>\<open>QobuzService::ExtractSong\<close> writes. The
  song URL is built with \<^verbatim>\<open>setScheme\<close> and \<^verbatim>\<open>setPath\<close> only.
\<close>

record QUrl =
  url_scheme :: string
  url_path :: string

record Song =
  url :: QUrl
  artist :: string
  title :: string
  length_nanosec :: "64 word"
  playcount :: int
  album :: string
  genre :: string
  art_automatic :: string
  albumartist :: string
  year :: int
  valid :: bool

text \<open>
  Modelled from the spec: core/song.h is not among the sources; the spec speaks of an
  "invalid default Song". A default-constructed \<^verbatim>\<open>Song\<close> is not valid; the initial values
  of its other fields are placeholders that no result below depends on.
\<close>

definition Song_default :: Song where
  "Song_default =
     \<lparr>url = \<lparr>url_scheme = [], url_path = []\<rparr>, artist = [], title = [], length_nanosec = 0,
      playcount = 0, album = [], genre = [], art_automatic = [], albumartist = [],
      year = 0, valid = False\<rparr>"

definition is_valid :: "Song \<Rightarrow> bool" where
  "is_valid song = valid song"

text \<open>
  \<^verbatim>\<open>QDateTime::setTime_t\<close> takes a \<^verbatim>\<open>uint\<close>: the signed 32-bit \<^verbatim>\<open>released_at\<close> that
  \<^verbatim>\<open>ExtractSong\<close> passes is converted modulo \<open>2^32\<close>, so a negative time stamp becomes
  a large positive one.
\<close>

definition to_uint32 :: "int \<Rightarrow> int" where
  "to_uint32 n = n mod 4294967296"

text \<open>core/timeconstants.h: nanoseconds per second.\<close>

definition kNsecPerSec :: "64 word" where
  "kNsecPerSec = 1000000000"

definition ExtractSong :: "Qt \<Rightarrow> QVariantMap \<Rightarrow> Song" where
  "ExtractSong qt result_song =
     (if result_song \<noteq> [] \<and> toBool (map_value result_song ''streamable'') then
        (let result_album = toMap (map_value result_song ''album'');
             released_at = toInt qt (map_value result_album ''released_at'') in
         Song_default
           \<lparr>url := \<lparr>url_scheme = ''qobuz'',
                    url_path = toString (map_value result_song ''id'')\<rparr>,
            artist := toString (map_value (toMap (map_value result_song ''performer'')) ''name''),
            title := toString (map_value result_song ''title''),
            length_nanosec := toULongLong qt (map_value result_song ''duration'') * kNsecPerSec,
            playcount := toInt qt (map_value result_song ''track_number''),
            album := toString (map_value result_album ''title''),
            genre := toString (map_value (toMap (map_value result_album ''genre'')) ''name''),
            art_automatic :=
              toString (map_value (toMap (map_value result_album ''image'')) ''large''),
            albumartist :=
              toString (map_value (toMap (map_value
                (toMap (map_value result_song ''album'')) ''artist'')) ''name''),
            year := QDateTime_year qt (to_uint32 released_at),
            valid := True\<rparr>)
      else Song_default)"

fun ExtractSongs_loop :: "Qt \<Rightarrow> QVariant list \<Rightarrow> Song list \<Rightarrow> Song list" where
  "ExtractSongs_loop qt [] songs = songs"
| "ExtractSongs_loop qt (item # items) songs =
     (let song = ExtractSong qt (toMap item) in
      ExtractSongs_loop qt items (if is_valid song then songs @ [song] else songs))"

definition ExtractSongs :: "Qt \<Rightarrow> QVariant \<Rightarrow> Song list" where
  "ExtractSongs qt result = ExtractSongs_loop qt (toList (map_value (toMap result) ''items'')) []"

section \<open>The service and its collaborators\<close>

subsection \<open>Constants\<close>

definition kSearchDelayMsec :: int where "kSearchDelayMsec = 400"
definition kSongSearchLimit :: int where "kSongSearchLimit = 100"
definition kSongSimpleSearchLimit :: int where "kSongSimpleSearchLimit = 30"

definition kAppId :: string where "kAppId = []"
definition kAppSecret :: string where "kAppSecret = []"
definition kBaseUrl :: string where "kBaseUrl = ''http://www.qobuz.com/api.json/0.2''"
definition kGetPlaylist :: string where "kGetPlaylist = ''/playlist/get''"
definition kUpdatePlaylist :: string where "kUpdatePlaylist = ''/playlist/update''"
definition kUserFavorites :: string where "kUserFavorites = ''/favorite/getUserFavorites''"
definition kUserDeleteFavorite :: string where "kUserDeleteFavorite = ''/favorite/delete''"
definition kSearch :: string where "kSearch = ''/catalog/search''"
definition kSteamUrl :: string where "kSteamUrl = ''/track/getFileUrl''"

text \<open>\<^verbatim>\<open>enum Quality\<close> and \<^verbatim>\<open>enum Error\<close> of qobuzservice.h, as the integers they are.\<close>

definition NONE :: int where "NONE = 0"
definition MP3 :: int where "MP3 = 5"
definition FLAC :: int where "FLAC = 6"
definition NO_ERROR :: int where "NO_ERROR = 200"
definition UNAUTHORIZED :: int where "UNAUTHORIZED = 401"

subsection \<open>State\<close>

text \<open>
  Tree items (\<^verbatim>\<open>QStandardItem*\<close>) are identified by numbers; a null pointer is \<open>None\<close>.
  Request identifiers produced by the two post-incremented counters are 32-bit machine
  integers and wrap around; the other integers (ids received from the API or from the
  task manager, status codes) are never computed with and are plain integers.
\<close>

type_synonym item = nat

record PlaylistInfo =
  playlist_id :: int
  playlist_name :: string
  playlist_item :: item
  songs_ids :: "int list"

text \<open>A request handed to the network access manager by \<^verbatim>\<open>CreateRequest\<close>.\<close>

record request =
  request_url :: string
  query_items :: "(string \<times> string) list"
  raw_headers :: "(string \<times> string) list"

text \<open>The slot and arguments that \<^verbatim>\<open>NewClosure\<close> binds to the \<^verbatim>\<open>finished()\<close> signal of a reply.\<close>

datatype slot =
    SLOT_SearchFinished
  | SLOT_SimpleSearchFinished "32 word"
  | SLOT_UserFavoritesRetrieved
  | SLOT_FeaturedPlaylistsRetrieved
  | SLOT_SongsRemovedFromFavorites int
  | SLOT_PlaylistSongsSet int int
  | SLOT_PlaylistRetrieved int "32 word"

text \<open>Signals of \<^verbatim>\<open>QobuzService\<close>.\<close>

datatype signal =
    SimpleSearchResults "32 word" "Song list"
  | ReplyError int
  | PlaylistRetrieved

text \<open>
  The fields of \<^verbatim>\<open>QobuzService\<close> that the modelled operations read or write, followed by
  the state of the collaborators they act on:
  \<^item> \<open>root_rows\<close>: the rows of the root item \<^verbatim>\<open>root_\<close>, which \<^verbatim>\<open>CreateRootItem\<close> creates
    before any item is appended; \<open>rows\<close>: the number of child rows of each other item;
  \<^item> \<open>settings\<close>: the \<^verbatim>\<open>QSettings\<close> group "Qobuz";
  \<^item> \<open>tasks\<close>, \<open>next_task_id\<close>: the task manager;
  \<^item> \<open>network\<close>: the requests sent so far; \<open>closures\<close>: the pending reply handlers;
  \<^item> \<open>search_delay_active\<close>: whether the single-shot timer \<^verbatim>\<open>search_delay_\<close> is running;
  \<^item> \<open>emitted\<close>: the signals emitted by the service so far.
\<close>

record QobuzService =
  featured_playlists_info :: "(int \<times> PlaylistInfo) list"
  user_playlists_info :: "(int \<times> PlaylistInfo) list"
  search :: "item option"
  user_favorites :: "item option"
  user_playlists :: "item option"
  featured_playlists :: "item option"
  pending_search :: string
  next_pending_search_id :: "32 word"
  task_search_id :: int
  next_pending_playlist_id :: "32 word"
  task_featured_playlists_id :: int
  task_user_playlists_id :: int
  task_user_favorites_id :: int
  pending_retrieve_playlists :: "32 word set"
  access_token :: string
  user_id :: string
  quality :: int
  root_rows :: "item list"
  rows :: "item \<Rightarrow> nat"
  settings :: "string \<rightharpoonup> QVariant"
  tasks :: "int set"
  next_task_id :: int
  network :: "request list"
  closures :: "(nat \<times> slot) list"
  search_delay_active :: bool
  emitted :: "signal list"

text \<open>
  The constructor (qobuzservice.cpp, lines 82-121) on empty settings, where
  \<^verbatim>\<open>LoadCredentialsIfEmpty\<close> changes nothing. The task manager hands out ids from 1.
\<close>

definition QobuzService_new :: QobuzService where
  "QobuzService_new =
     \<lparr>featured_playlists_info = [], user_playlists_info = [],
      search = None, user_favorites = None, user_playlists = None, featured_playlists = None,
      pending_search = [], next_pending_search_id = 0, task_search_id = 0,
      next_pending_playlist_id = 0, task_featured_playlists_id = 0,
      task_user_playlists_id = 0, task_user_favorites_id = 0,
      pending_retrieve_playlists = {}, access_token = [], user_id = [], quality = MP3,
      root_rows = [], rows = (\<lambda>_. 0), settings = Map.empty, tasks = {}, next_task_id = 1,
      network = [], closures = [], search_delay_active = False, emitted = []\<rparr>"

subsection \<open>Task manager\<close>

text \<open>
  Modelled from the spec: core/taskmanager.h is not among the sources. The task manager
  keeps the set of running tasks: \<^verbatim>\<open>StartTask\<close> registers a task under a new id and
  returns the id, \<^verbatim>\<open>SetTaskFinished\<close> removes it, \<^verbatim>\<open>ContainsTask\<close> tests whether a
  task is still running.
\<close>

definition StartTask :: "QobuzService \<Rightarrow> int \<times> QobuzService" where
  "StartTask s =
     (next_task_id s, s\<lparr>tasks := insert (next_task_id s) (tasks s),
                        next_task_id := next_task_id s + 1\<rparr>)"

definition SetTaskFinished :: "QobuzService \<Rightarrow> int \<Rightarrow> QobuzService" where
  "SetTaskFinished s task = s\<lparr>tasks := tasks s - {task}\<rparr>"

definition ContainsTask :: "QobuzService \<Rightarrow> int \<Rightarrow> bool" where
  "ContainsTask s task = (task \<in> tasks s)"

subsection \<open>Requests\<close>

definition setRawHeader :: "string \<Rightarrow> string \<Rightarrow> request \<Rightarrow> request" where
  "setRawHeader name v req = req\<lparr>raw_headers := AList.update name v (raw_headers req)\<rparr>"

fun addQueryItems :: "(string \<times> string) list \<Rightarrow> request \<Rightarrow> request" where
  "addQueryItems [] req = req"
| "addQueryItems (param # params) req =
     addQueryItems params (req\<lparr>query_items := query_items req @ [(fst param, snd param)]\<rparr>)"

text \<open>
  \<^verbatim>\<open>CreateRequest\<close> returns the reply object of the request it sends; the model returns the
  position of the request in \<open>network\<close>.
\<close>

definition CreateRequest ::
  "QobuzService \<Rightarrow> string \<Rightarrow> (string \<times> string) list \<Rightarrow> bool \<Rightarrow> nat \<times> QobuzService" where
  "CreateRequest s ressource_name params add_auth_header =
     (let url = addQueryItems params
                  \<lparr>request_url = kBaseUrl @ ressource_name, query_items = [], raw_headers = []\<rparr>;
          req = setRawHeader ''x-app-id'' kAppId url;
          req = (if add_auth_header then setRawHeader ''x-user-auth-token'' (access_token s) req
                 else req);
          req = setRawHeader ''Accept'' ''application/json'' req
      in (length (network s), s\<lparr>network := network s @ [req]\<rparr>))"

definition NewClosure :: "QobuzService \<Rightarrow> nat \<Rightarrow> slot \<Rightarrow> QobuzService" where
  "NewClosure s reply sl = s\<lparr>closures := closures s @ [(reply, sl)]\<rparr>"

definition emit :: "signal \<Rightarrow> QobuzService \<Rightarrow> QobuzService" where
  "emit sig s = s\<lparr>emitted := emitted s @ [sig]\<rparr>"

subsection \<open>Searching\<close>

definition ClearSearchResults :: "QobuzService \<Rightarrow> QobuzService" where
  "ClearSearchResults s =
     (case search s of None \<Rightarrow> s | Some it \<Rightarrow> s\<lparr>rows := (rows s)(it := 0)\<rparr>)"

definition DoSearch :: "QobuzService \<Rightarrow> QobuzService" where
  "DoSearch s =
     (let s = ClearSearchResults s;
          parameters = [(''limit'', QString_number kSongSearchLimit),
                        (''query'', pending_search s), (''type'', ''tracks'')];
          (reply, s) = CreateRequest s kSearch parameters True
      in NewClosure s reply SLOT_SearchFinished)"

definition Search :: "QobuzService \<Rightarrow> string \<Rightarrow> bool \<Rightarrow> QobuzService" where
  "Search s text now =
     (let s = s\<lparr>pending_search := text\<rparr>;
          s = (if task_search_id s = 0
               then (let (task, s) = StartTask s in s\<lparr>task_search_id := task\<rparr>)
               else s)
      in if text = [] then ClearSearchResults (s\<lparr>search_delay_active := False\<rparr>)
         else if now then DoSearch (s\<lparr>search_delay_active := False\<rparr>)
         else s\<lparr>search_delay_active := True\<rparr>)"

definition SimpleSearch :: "QobuzService \<Rightarrow> string \<Rightarrow> 32 word \<times> QobuzService" where
  "SimpleSearch s text =
     (let parameters = [(''limit'', QString_number kSongSimpleSearchLimit),
                        (''query'', text), (''type'', ''tracks'')];
          (reply, s) = CreateRequest s kSearch parameters True;
          ident = next_pending_search_id s;
          s = s\<lparr>next_pending_search_id := next_pending_search_id s + 1\<rparr>
      in (ident, NewClosure s reply (SLOT_SimpleSearchFinished ident)))"

subsection \<open>Lists of song ids\<close>

function SongsIds_loop :: "int list \<Rightarrow> int \<Rightarrow> string \<Rightarrow> error + int \<times> string" where
  "SongsIds_loop songs i songs_ids_string =
     (if i < int (length songs) - 1 then
        (case QList_at songs i of
           Inl e \<Rightarrow> Inl e
         | Inr v \<Rightarrow> SongsIds_loop songs (i + 1) (songs_ids_string @ QString_number v @ '',''))
      else Inr (i, songs_ids_string))"
  by pat_completeness auto
termination
  by (relation "measure (\<lambda>(songs, i, acc). nat (int (length songs) - 1 - i))") auto

declare SongsIds_loop.simps [simp del]

definition SongsIdsToStringParameter :: "int list \<Rightarrow> error + string" where
  "SongsIdsToStringParameter songs =
     (case SongsIds_loop songs 0 [] of
        Inl e \<Rightarrow> Inl e
      | Inr (i, songs_ids_string) \<Rightarrow>
          (case QList_at songs i of
             Inl e \<Rightarrow> Inl e
           | Inr v \<Rightarrow> Inr (songs_ids_string @ QString_number v)))"

definition RemoveFromFavorites :: "QobuzService \<Rightarrow> int list \<Rightarrow> error + QobuzService" where
  "RemoveFromFavorites s songs_ids_to_remove =
     (if songs_ids_to_remove = [] then Inr s
      else
        (let (task_id, s) = StartTask s in
         case SongsIdsToStringParameter songs_ids_to_remove of
           Inl e \<Rightarrow> Inl e
         | Inr songs_ids_string \<Rightarrow>
             (let parameters = [(''track_ids'', songs_ids_string)];
                  (reply, s) = CreateRequest s kUserDeleteFavorite parameters True
              in Inr (NewClosure s reply (SLOT_SongsRemovedFromFavorites task_id)))))"

definition SetPlaylistSongs :: "QobuzService \<Rightarrow> int \<Rightarrow> int list \<Rightarrow> error + QobuzService" where
  "SetPlaylistSongs s pl_id songs =
     (if pending_retrieve_playlists s \<noteq> {} then Inr s
      else
        (let (task_id, s) = StartTask s in
         case SongsIdsToStringParameter songs of
           Inl e \<Rightarrow> Inl e
         | Inr songs_ids_string \<Rightarrow>
             (let parameters = [(''playlist_id'', QString_number pl_id),
                                (''track_ids'', songs_ids_string)];
                  (reply, s) = CreateRequest s kUpdatePlaylist parameters True
              in Inr (NewClosure s reply (SLOT_PlaylistSongsSet pl_id task_id)))))"

definition RefreshPlaylist :: "QobuzService \<Rightarrow> int \<Rightarrow> QobuzService" where
  "RefreshPlaylist s pl_id =
     (let parameters = [(''extra'', ''tracks''), (''playlist_id'', QString_number pl_id)];
          (reply, s) = CreateRequest s kGetPlaylist parameters True;
          ident = next_pending_playlist_id s;
          s = s\<lparr>next_pending_playlist_id := next_pending_playlist_id s + 1,
                 pending_retrieve_playlists := insert ident (pending_retrieve_playlists s)\<rparr>
      in NewClosure s reply (SLOT_PlaylistRetrieved pl_id ident))"


subsection \<open>Waiting for a signal\<close>

text \<open>
  Modelled from the spec: core/waitforsignal.h is not among the sources; the spec calls it
  "an ad hoc polling wait used once (during logout, to block until in-flight tasks
  finish)". \<^verbatim>\<open>WaitForSignal(sender, signal)\<close> runs the event loop until the sender emits
  the signal. The slots that run meanwhile may change any part of the state, so the
  environment supplies, for each wait that ends, the net change up to the moment the
  awaited signal arrives. The environment lists the waits that will end, in order; when
  it is exhausted the awaited signal never arrives and the wait does not return, which
  is the result \<open>None\<close>.
\<close>

type_synonym environment = "(QobuzService \<Rightarrow> QobuzService) list"

definition WaitForSignal ::
  "environment \<Rightarrow> QobuzService \<Rightarrow> (environment \<times> QobuzService) option" where
  "WaitForSignal env s = (case env of [] \<Rightarrow> None | during # env \<Rightarrow> Some (env, during s))"

subsection \<open>Logging out\<close>

definition IsLoggedIn :: "QobuzService \<Rightarrow> bool" where
  "IsLoggedIn s = (access_token s \<noteq> [])"

text \<open>The condition of the first loop of \<^verbatim>\<open>Logout\<close> (lines 272-275).\<close>

definition tracked_task_running :: "QobuzService \<Rightarrow> bool" where
  "tracked_task_running s =
     (ContainsTask s (task_featured_playlists_id s)
      \<or> ContainsTask s (task_search_id s)
      \<or> ContainsTask s (task_user_favorites_id s)
      \<or> ContainsTask s (task_user_playlists_id s))"

text \<open>The two loops: each iteration is one \<^verbatim>\<open>WaitForSignal\<close>.\<close>

fun Logout_wait_tasks ::
  "environment \<Rightarrow> QobuzService \<Rightarrow> (environment \<times> QobuzService) option" where
  "Logout_wait_tasks [] s = (if tracked_task_running s then None else Some ([], s))"
| "Logout_wait_tasks (during # env) s =
     (if tracked_task_running s then Logout_wait_tasks env (during s)
      else Some (during # env, s))"

fun Logout_wait_playlists ::
  "environment \<Rightarrow> QobuzService \<Rightarrow> (environment \<times> QobuzService) option" where
  "Logout_wait_playlists [] s =
     (if pending_retrieve_playlists s \<noteq> {} then None else Some ([], s))"
| "Logout_wait_playlists (during # env) s =
     (if pending_retrieve_playlists s \<noteq> {} then Logout_wait_playlists env (during s)
      else Some (during # env, s))"

text \<open>Lines 272-282: the state in which the session is torn down, if the waits end.\<close>

definition Logout_waits ::
  "environment \<Rightarrow> QobuzService \<Rightarrow> (environment \<times> QobuzService) option" where
  "Logout_waits env s =
     (case Logout_wait_tasks env s of
        None \<Rightarrow> None
      | Some (env, s) \<Rightarrow> Logout_wait_playlists env s)"

text \<open>
  \<^verbatim>\<open>QStandardItem::row()\<close> is the position of an item among the rows of its parent, and
  \<open>-1\<close> for an item without parent; the four items below are only ever appended to
  \<^verbatim>\<open>root_\<close> (\<^verbatim>\<open>EnsureItemsCreated\<close>). \<^verbatim>\<open>removeRow\<close> ignores a row that does not exist.
\<close>

fun item_row :: "item list \<Rightarrow> item \<Rightarrow> int" where
  "item_row [] it = - 1"
| "item_row (r # rs) it =
     (if r = it then 0 else (let k = item_row rs it in if k < 0 then - 1 else k + 1))"

definition removeRow :: "int \<Rightarrow> item list \<Rightarrow> item list" where
  "removeRow r rs =
     (if 0 \<le> r \<and> r < int (length rs) then take (nat r) rs @ drop (nat r + 1) rs else rs)"

definition remove_item :: "item option \<Rightarrow> item list \<Rightarrow> item list" where
  "remove_item ptr rs = (case ptr of None \<Rightarrow> rs | Some it \<Rightarrow> removeRow (item_row rs it) rs)"

text \<open>Lines 284-311.\<close>

definition Logout_teardown :: "QobuzService \<Rightarrow> QobuzService" where
  "Logout_teardown s =
     (let s = s\<lparr>access_token := [], user_id := [], quality := NONE,
                 settings := (settings s)(''access_token'' := None, ''user_id'' := None,
                                          ''quality'' := None)\<rparr>;
          s = s\<lparr>root_rows := remove_item (featured_playlists s) (root_rows s),
                 featured_playlists := None\<rparr>;
          s = s\<lparr>root_rows := remove_item (user_favorites s) (root_rows s),
                 user_favorites := None\<rparr>;
          s = s\<lparr>root_rows := remove_item (user_playlists s) (root_rows s),
                 user_playlists := None\<rparr>;
          s = s\<lparr>root_rows := remove_item (search s) (root_rows s), search := None\<rparr>
      in s\<lparr>featured_playlists_info := [], user_playlists_info := [], pending_search := []\<rparr>)"

definition Logout :: "environment \<Rightarrow> QobuzService \<Rightarrow> (environment \<times> QobuzService) option" where
  "Logout env s =
     (let (task_id, s) = StartTask s in
      case Logout_waits env s of
        None \<Rightarrow> None
      | Some (env, s) \<Rightarrow> Some (env, SetTaskFinished (Logout_teardown s) task_id))"

subsection \<open>Replies\<close>

text \<open>
  What the service reads from a finished \<^verbatim>\<open>QNetworkReply\<close>: the HTTP status code
  attribute as an integer, and the value the JSON parser makes of the body (an invalid
  QVariant when there is none or parsing fails).
\<close>

record reply =
  HttpStatusCode :: int
  parsed_body :: QVariant

definition ExtractResult ::
  "environment \<Rightarrow> QobuzService \<Rightarrow> reply \<Rightarrow> (environment \<times> QobuzService \<times> QVariantMap) option" where
  "ExtractResult env s rep =
     (let status_code = HttpStatusCode rep in
      if status_code \<noteq> NO_ERROR then
        (case (if status_code = UNAUTHORIZED then Logout env s else Some (env, s)) of
           None \<Rightarrow> None
         | Some (env, s) \<Rightarrow> Some (env, emit (ReplyError status_code) s, []))
      else Some (env, s, toMap (parsed_body rep)))"

definition SimpleSearchFinished ::
  "Qt \<Rightarrow> environment \<Rightarrow> QobuzService \<Rightarrow> reply \<Rightarrow> 32 word \<Rightarrow>
     (environment \<times> QobuzService) option" where
  "SimpleSearchFinished qt env s rep ident =
     (case ExtractResult env s rep of
        None \<Rightarrow> None
      | Some (env, s, result) \<Rightarrow>
          Some (env, emit (SimpleSearchResults ident
                             (ExtractSongs qt (map_value result ''tracks''))) s))"

subsection \<open>Streaming URL\<close>

definition QString_remove :: "char \<Rightarrow> string \<Rightarrow> string" where
  "QString_remove c str = filter (\<lambda>x. x \<noteq> c) str"

definition hex_digit :: "nat \<Rightarrow> char" where
  "hex_digit d = ''0123456789abcdef'' ! d"

definition toHex :: "string \<Rightarrow> string" where
  "toHex bytes =
     concat (map (\<lambda>b. [hex_digit (of_char b div 16), hex_digit (of_char b mod 16)]) bytes)"

fun append_params :: "(string \<times> string) list \<Rightarrow> string \<Rightarrow> string" where
  "append_params [] request_sig = request_sig"
| "append_params (p # ps) request_sig = append_params ps (request_sig @ fst p @ snd p)"

text \<open>Lines 736-754: the parameters of the signed request, for the time \<open>now\<close>.\<close>

definition streaming_parameters :: "Qt \<Rightarrow> int \<Rightarrow> int \<Rightarrow> string \<Rightarrow> (string \<times> string) list" where
  "streaming_parameters qt now qual ident =
     (let parameters = [(''format_id'', QString_number qual), (''intent'', ''stream''),
                        (''track_id'', ident)];
          request_sig = QString_remove CHR ''/'' kSteamUrl;
          request_ts = QString_number now;
          request_sig = append_params parameters request_sig;
          request_sig = request_sig @ request_ts;
          request_sig = request_sig @ kAppSecret;
          request_sig = toHex (QCryptographicHash_Md5 qt request_sig)
      in parameters @ [(''request_ts'', request_ts), (''request_sig'', request_sig)])"

text \<open>
  \<open>now\<close> is the value of \<^verbatim>\<open>time(nullptr)\<close>, \<open>answer\<close> what the reply holds once it has
  finished.
\<close>

definition GetStreamingUrlFromSongId ::
  "Qt \<Rightarrow> int \<Rightarrow> reply \<Rightarrow> environment \<Rightarrow> QobuzService \<Rightarrow> string \<Rightarrow>
     (environment \<times> QobuzService \<times> string) option" where
  "GetStreamingUrlFromSongId qt now answer env s ident =
     (let parameters = streaming_parameters qt now (quality s) ident;
          (rep, s) = CreateRequest s kSteamUrl parameters True
      in case WaitForSignal env s of
           None \<Rightarrow> None
         | Some (env, s) \<Rightarrow>
             (case ExtractResult env s answer of
                None \<Rightarrow> None
              | Some (env, s, result) \<Rightarrow>
                  Some (env, s, toUrl (map_value (toMap (QVariantMap result)) ''url''))))"

text \<open>qobuzurlhandler.cpp.\<close>

datatype LoadResultType = TrackAvailable

definition StartLoading ::
  "Qt \<Rightarrow> int \<Rightarrow> reply \<Rightarrow> environment \<Rightarrow> QobuzService \<Rightarrow> QUrl \<Rightarrow>
     (environment \<times> QobuzService \<times> QUrl \<times> LoadResultType \<times> string) option" where
  "StartLoading qt now answer env s u =
     (let ident = url_path u in
      case GetStreamingUrlFromSongId qt now answer env s ident of
        None \<Rightarrow> None
      | Some (env, s, real_url) \<Rightarrow> Some (env, s, u, TrackAvailable, real_url))"

section \<open>The global search provider\<close>

text \<open>
  \<^verbatim>\<open>PendingState\<close>, its default constructor and its equality, and \<^verbatim>\<open>TokenizeQuery\<close> belong
  to the base class \<^verbatim>\<open>SearchProvider\<close> (searchprovider.h, not among the sources): they
  are parameters.
\<close>

record PendingState =
  orig_id :: int
  tokens :: "string list"

record SearchProvider =
  TokenizeQuery :: "string \<Rightarrow> string list"
  PendingState_default :: PendingState
  PendingState_equal :: "PendingState \<Rightarrow> PendingState \<Rightarrow> bool"

record Result =
  metadata :: Song

datatype provider_signal =
    ResultsAvailable int "Result list"
  | SearchFinished int

record QobuzSearchProvider =
  pending_searches :: "(32 word \<times> PendingState) list"
  provider_emitted :: "provider_signal list"

definition SearchAsync ::
  "SearchProvider \<Rightarrow> QobuzService \<times> QobuzSearchProvider \<Rightarrow> int \<Rightarrow> string \<Rightarrow>
     QobuzService \<times> QobuzSearchProvider" where
  "SearchAsync base sp ident query =
     (let (service_id, service) = SimpleSearch (fst sp) query
      in (service,
          (snd sp)\<lparr>pending_searches :=
            AList.update service_id \<lparr>orig_id = ident, tokens = TokenizeQuery base query\<rparr>
              (pending_searches (snd sp))\<rparr>))"

text \<open>\<^verbatim>\<open>QMap::take\<close>: the value stored under the key, or a default-constructed one.\<close>

definition take_pending ::
  "SearchProvider \<Rightarrow> 32 word \<Rightarrow> (32 word \<times> PendingState) list \<Rightarrow>
     PendingState \<times> (32 word \<times> PendingState) list" where
  "take_pending base k m =
     ((case map_of m k of None \<Rightarrow> PendingState_default base | Some st \<Rightarrow> st),
      AList.delete k m)"

definition MaybeSearchFinished ::
  "SearchProvider \<Rightarrow> QobuzSearchProvider \<Rightarrow> int \<Rightarrow> QobuzSearchProvider" where
  "MaybeSearchFinished base p ident =
     (if filter (\<lambda>kv. PendingState_equal base (snd kv) \<lparr>orig_id = ident, tokens = []\<rparr>)
           (pending_searches p) = []
      then p\<lparr>provider_emitted := provider_emitted p @ [SearchFinished ident]\<rparr>
      else p)"

fun results_of :: "Song list \<Rightarrow> Result list \<Rightarrow> Result list" where
  "results_of [] ret = ret"
| "results_of (song # songs) ret = results_of songs (ret @ [\<lparr>metadata = song\<rparr>])"

definition SearchDone ::
  "SearchProvider \<Rightarrow> QobuzSearchProvider \<Rightarrow> 32 word \<Rightarrow> Song list \<Rightarrow> QobuzSearchProvider" where
  "SearchDone base p ident songs =
     (let (state, m) = take_pending base ident (pending_searches p);
          p = p\<lparr>pending_searches := m\<rparr>;
          global_search_id = orig_id state;
          ret = results_of songs [];
          p = p\<lparr>provider_emitted :=
                  provider_emitted p @ [ResultsAvailable global_search_id ret]\<rparr>
      in MaybeSearchFinished base p global_search_id)"


text \<open>
  \<^verbatim>\<open>Init\<close> connects the signal \<^verbatim>\<open>SimpleSearchResults\<close> of the service to the slot
  \<^verbatim>\<open>SearchDone\<close>. What happens to the pair of service and provider is therefore a sequence
  of calls of \<^verbatim>\<open>SearchAsync\<close> and of emissions of \<^verbatim>\<open>SimpleSearchResults\<close>.
\<close>

datatype event =
    Call_SearchAsync int string
  | Emit_SimpleSearchResults "32 word" "Song list"

fun step ::
  "SearchProvider \<Rightarrow> QobuzService \<times> QobuzSearchProvider \<Rightarrow> event \<Rightarrow>
     QobuzService \<times> QobuzSearchProvider" where
  "step base sp (Call_SearchAsync ident query) = SearchAsync base sp ident query"
| "step base sp (Emit_SimpleSearchResults service_id songs) =
     (fst sp, SearchDone base (snd sp) service_id songs)"

definition run ::
  "SearchProvider \<Rightarrow> QobuzService \<times> QobuzSearchProvider \<Rightarrow> event list \<Rightarrow>
     QobuzService \<times> QobuzSearchProvider" where
  "run base sp evs = foldl (step base) sp evs"

fun is_call :: "event \<Rightarrow> bool" where
  "is_call (Call_SearchAsync _ _) = True"
| "is_call (Emit_SimpleSearchResults _ _) = False"

fun emits :: "32 word \<Rightarrow> event \<Rightarrow> bool" where
  "emits k (Call_SearchAsync _ _) = False"
| "emits k (Emit_SimpleSearchResults service_id _) = (service_id = k)"

definition calls :: "event list \<Rightarrow> nat" where
  "calls evs = length (filter is_call evs)"

section \<open>Notions of the specification\<close>

text \<open>Texts joined by single commas, without a separator at either end.\<close>

fun comma_join :: "string list \<Rightarrow> string" where
  "comma_join [] = []"
| "comma_join [x] = x"
| "comma_join (x # y # ys) = x @ '','' @ comma_join (y # ys)"

section \<open>Further operations and worked inputs\<close>

text \<open>Lines 322-331 and 349-358: two of the requests whose tasks \<^verbatim>\<open>Logout\<close> waits for.\<close>

definition RetrieveUserFavorites :: "QobuzService \<Rightarrow> QobuzService" where
  "RetrieveUserFavorites s =
     (let (task, s) = StartTask s;
          s = s\<lparr>task_user_favorites_id := task\<rparr>;
          parameters = [(''type'', ''tracks''), (''user_id'', user_id s)];
          (reply, s) = CreateRequest s kUserFavorites parameters True
      in NewClosure s reply SLOT_UserFavoritesRetrieved)"

definition kFeaturedPlaylists :: string where "kFeaturedPlaylists = ''/playlist/getFeatured''"

definition RetrieveFeaturedPlaylists :: "QobuzService \<Rightarrow> QobuzService" where
  "RetrieveFeaturedPlaylists s =
     (let (task, s) = StartTask s;
          s = s\<lparr>task_featured_playlists_id := task\<rparr>;
          parameters = [(''type'', ''editor-picks''), (''user_id'', user_id s)];
          (reply, s) = CreateRequest s kFeaturedPlaylists parameters True
      in NewClosure s reply SLOT_FeaturedPlaylistsRetrieved)"

text \<open>
  A stand-in for the Qt library in worked examples: strings that are not numbers parse
  as 0, years are counted in mean Gregorian years from 1970, and the digest is a fixed
  text.
\<close>

definition Qt_example :: Qt where
  "Qt_example =
     \<lparr>QString_toLongLong = (\<lambda>_. 0), QString_toULongLong = (\<lambda>_. 0),
      QDateTime_year = (\<lambda>t. 1970 + t div 31556952),
      QCryptographicHash_Md5 = (\<lambda>_. ''0123456789abcdef'')\<rparr>"

text \<open>A service that has logged in (\<^verbatim>\<open>ConnectFinished\<close> stored the token and user id).\<close>

definition logged_in :: QobuzService where
  "logged_in = QobuzService_new\<lparr>access_token := ''token'', user_id := ''42''\<rparr>"

text \<open>Replies of the server: an authentication failure, and a track URL.\<close>

definition reply_unauthorized :: reply where
  "reply_unauthorized = \<lparr>HttpStatusCode = 401, parsed_body = QInvalid\<rparr>"

definition reply_track_url :: reply where
  "reply_track_url =
     \<lparr>HttpStatusCode = 200,
      parsed_body = QVariantMap [(''url'', QString ''http://cdn.example/track.flac'')]\<rparr>"

text \<open>
  What can happen while \<^verbatim>\<open>Logout\<close> waits for \<^verbatim>\<open>PlaylistRetrieved\<close>: the search box emits
  \<^verbatim>\<open>TextChanged\<close>, which runs the slot \<^verbatim>\<open>Search\<close>; then the reply to playlist request 0
  is handled by the slot \<^verbatim>\<open>PlaylistRetrieved\<close>, which removes the request id from
  \<^verbatim>\<open>pending_retrieve_playlists_\<close> (line 639) and emits the signal (line 667).
\<close>

definition typing_then_playlist_retrieved :: "QobuzService \<Rightarrow> QobuzService" where
  "typing_then_playlist_retrieved s =
     (let s = Search s ''abba'' False;
          s = s\<lparr>pending_retrieve_playlists := pending_retrieve_playlists s - {0}\<rparr>
      in emit PlaylistRetrieved s)"

text \<open>A song object with every projected field, flagged as not streamable.\<close>

definition song_not_streamable :: QVariantMap where
  "song_not_streamable =
     [(''id'', QLongLong 1234), (''title'', QString ''So What''), (''duration'', QLongLong 545),
      (''track_number'', QLongLong 1), (''streamable'', QBool False),
      (''performer'', QVariantMap [(''name'', QString ''Miles Davis'')]),
      (''album'', QVariantMap
         [(''title'', QString ''Kind of Blue''),
          (''genre'', QVariantMap [(''name'', QString ''Jazz'')]),
          (''image'', QVariantMap [(''large'', QString ''http://cdn.example/kob.jpg'')]),
          (''artist'', QVariantMap [(''name'', QString ''Miles Davis'')]),
          (''released_at'', QLongLong (- 326592000))])]"


text \<open>A song object that carries nothing but the flag.\<close>

definition song_only_streamable :: QVariantMap where
  "song_only_streamable = [(''streamable'', QBool True)]"

text \<open>
  A logged-in service whose tree \<^verbatim>\<open>EnsureItemsCreated\<close> has built (the items of the search
  results, the favorites, the featured playlists and the user playlists are appended to
  \<^verbatim>\<open>root_\<close> in this order), showing two search results for a pending search text and
  knowing one user playlist.
\<close>

definition browsing :: QobuzService where
  "browsing =
     logged_in
       \<lparr>search := Some 1, user_favorites := Some 2, featured_playlists := Some 3,
        user_playlists := Some 4, root_rows := [1, 2, 3, 4], rows := ((\<lambda>_. 0)(1 := 2)),
        pending_search := ''abba'',
        user_playlists_info :=
          [(7, \<lparr>playlist_id = 7, playlist_name = ''Jazz'', playlist_item = 5,
                 songs_ids = [1234]\<rparr>)]\<rparr>"

text \<open>
  A stand-in for the base class in worked examples (a query is its own single token,
  pending states are compared by their original id), and a provider just constructed.
\<close>

definition SearchProvider_example :: SearchProvider where
  "SearchProvider_example =
     \<lparr>TokenizeQuery = (\<lambda>query. [query]),
      PendingState_default = \<lparr>orig_id = - 1, tokens = []\<rparr>,
      PendingState_equal = (\<lambda>a b. orig_id a = orig_id b)\<rparr>"

definition QobuzSearchProvider_new :: QobuzSearchProvider where
  "QobuzSearchProvider_new = \<lparr>pending_searches = [], provider_emitted = []\<rparr>"

text \<open>A reply to a catalog search with two song objects.\<close>

definition reply_tracks :: reply where
  "reply_tracks =
     \<lparr>HttpStatusCode = 200,
      parsed_body =
        QVariantMap
          [(''tracks'',
            QVariantMap [(''items'', QVariantList [QVariantMap song_not_streamable,
                                                   QVariantMap song_only_streamable])])]\<rparr>"

section \<open>Printing numbers and joining ids\<close>

lemma digit_value_digit_char: "d < 10 \<Longrightarrow> digit_value (digit_char d) = d"
proof -
  assume "d < 10"
  then have "d \<in> {0,1,2,3,4,5,6,7,8,9}" by auto
  then show ?thesis by (auto simp: digit_char_def digit_value_def)
qed

lemma decimal_value_snoc: "decimal_value (cs @ [c]) = 10 * decimal_value cs + digit_value c"
  by (simp add: decimal_value_def)

lemma number_digits_value: "decimal_value (number_digits n) = n"
proof (induction n rule: number_digits.induct)
  case (1 n)
  show ?case
  proof (cases "n < 10")
    case True
    have "number_digits n = [digit_char n]"
      using True by (subst number_digits.simps) simp
    with True show ?thesis
      using decimal_value_snoc [of "[]" "digit_char n"]
      by (simp add: digit_value_digit_char decimal_value_def)
  next
    case False
    from False 1 have ih: "decimal_value (number_digits (n div 10)) = n div 10" by simp
    have "number_digits n = number_digits (n div 10) @ [digit_char (n mod 10)]"
      using False by (subst number_digits.simps) simp
    then show ?thesis using ih by (simp add: decimal_value_snoc digit_value_digit_char)
  qed
qed

lemma SongsIds_loop_ok:
  "0 \<le> i \<Longrightarrow> SongsIds_loop songs i acc =
     Inr (max i (int (length songs) - 1),
          acc @ concat (map (\<lambda>v. QString_number v @ '','') (take (nat (int (length songs) - 1 - i)) (drop (nat i) songs))))"
proof (induction songs i acc rule: SongsIds_loop.induct)
  case (1 songs i acc)
  show ?case
  proof (cases "i < int (length songs) - 1")
    case True
    with 1 have at: "QList_at songs i = Inr (songs ! nat i)" by (simp add: QList_at_def)
    have ih: "SongsIds_loop songs (i + 1) (acc @ QString_number (songs ! nat i) @ '','') =
      Inr (max (i+1) (int (length songs) - 1),
          (acc @ QString_number (songs ! nat i) @ '','') @ concat (map (\<lambda>v. QString_number v @ '','') (take (nat (int (length songs) - 1 - (i+1))) (drop (nat (i+1)) songs))))"
      using 1 True at by simp
    have ni: "nat (i + 1) = Suc (nat i)" using 1(2) by simp
    have lt: "nat i < length songs" using True 1(2) by linarith
    have dr: "drop (nat i) songs = songs ! nat i # drop (nat (i + 1)) songs"
      unfolding ni using lt by (simp add: Cons_nth_drop_Suc)
    have tk: "nat (int (length songs) - 1 - i) = Suc (nat (int (length songs) - 1 - (i+1)))"
      using True by linarith
    have "SongsIds_loop songs i acc =
            SongsIds_loop songs (i + 1) (acc @ QString_number (songs ! nat i) @ '','')"
      using True at by (subst SongsIds_loop.simps) simp
    also note ih
    finally show ?thesis
      using True by (simp only: dr tk take_Suc_Cons list.map concat.simps append_assoc max_def) simp
  next
    case False
    then show ?thesis by (subst SongsIds_loop.simps) simp
  qed
qed

lemma comma_join_snoc:
  "xs \<noteq> [] \<Longrightarrow>
     comma_join (map f xs) = concat (map (\<lambda>v. f v @ '','') (butlast xs)) @ f (last xs)"
proof (induction xs)
  case Nil
  then show ?case by simp
next
  case (Cons x xs)
  show ?case
  proof (cases xs)
    case Nil
    then show ?thesis by simp
  next
    case (Cons y ys)
    with Cons.IH have "comma_join (map f xs) =
        concat (map (\<lambda>v. f v @ '','') (butlast xs)) @ f (last xs)" by simp
    with Cons show ?thesis by simp
  qed
qed

lemma SongsIdsToStringParameter_nonempty:
  assumes "songs \<noteq> []"
  shows "SongsIdsToStringParameter songs = Inr (comma_join (map QString_number songs))"
proof -
  have len: "0 < length songs" using assms by simp
  have loop: "SongsIds_loop songs 0 [] =
      Inr (int (length songs) - 1,
           concat (map (\<lambda>v. QString_number v @ '','') (butlast songs)))"
    using len SongsIds_loop_ok [of 0 songs "[]"] by (simp add: butlast_conv_take max_def nat_diff_distrib')
  have at: "QList_at songs (int (length songs) - 1) = Inr (last songs)"
    using len assms by (simp add: QList_at_def last_conv_nth nat_diff_distrib')
  show ?thesis
    by (simp add: SongsIdsToStringParameter_def loop at comma_join_snoc [OF assms])
qed

lemma SongsIdsToStringParameter_empty:
  "SongsIdsToStringParameter [] = Inl IndexOutOfRange"
  by (simp add: SongsIdsToStringParameter_def SongsIds_loop.simps QList_at_def)

lemma RemoveFromFavorites_returns: "\<exists>s'. RemoveFromFavorites s songs = Inr s'"
proof (cases "songs = []")
  case True
  then show ?thesis by (simp add: RemoveFromFavorites_def)
next
  case False
  then show ?thesis
    by (simp add: RemoveFromFavorites_def SongsIdsToStringParameter_nonempty Let_def
        split: prod.splits)
qed

lemma SetPlaylistSongs_empty:
  "pending_retrieve_playlists s = {} \<Longrightarrow> SetPlaylistSongs s pl [] = Inl IndexOutOfRange"
  by (simp add: SetPlaylistSongs_def SongsIdsToStringParameter_empty StartTask_def)

lemma QString_number_nonneg: "0 \<le> v \<Longrightarrow> decimal_value (QString_number v) = nat v"
  by (simp add: QString_number_def number_digits_value)

text \<open>
  Claim C9. \<^verbatim>\<open>SongsIdsToStringParameter\<close> needs a non-empty list. For a non-empty list it
  returns the ids in order, printed in base 10 and joined by single commas without a
  trailing separator. On the empty list the loop does not run and the final access
  \<^verbatim>\<open>songs.at(i)\<close> is out of range. \<^verbatim>\<open>RemoveFromFavorites\<close> returns before the conversion
  when the list is empty and so never fails; \<^verbatim>\<open>SetPlaylistSongs\<close> has no such guard and
  reaches the out-of-range access whenever no playlist retrieval is pending.
\<close>

theorem SongsIdsToStringParameter_requires_nonempty:
  "(songs \<noteq> [] \<longrightarrow>
      SongsIdsToStringParameter songs = Inr (comma_join (map QString_number songs)))
   \<and> (0 \<le> v \<longrightarrow> decimal_value (QString_number v) = nat v)
   \<and> SongsIdsToStringParameter [] = Inl IndexOutOfRange
   \<and> RemoveFromFavorites s [] = Inr s
   \<and> (\<exists>s'. RemoveFromFavorites s songs = Inr s')
   \<and> (pending_retrieve_playlists s = {} \<longrightarrow> SetPlaylistSongs s pl [] = Inl IndexOutOfRange)"
  using SongsIdsToStringParameter_nonempty [of songs] QString_number_nonneg [of v]
    SongsIdsToStringParameter_empty RemoveFromFavorites_returns [of s songs]
    SetPlaylistSongs_empty [of s pl]
  by (simp add: RemoveFromFavorites_def)

theorem SongsIdsToStringParameter_requires_nonempty_witness:
  "SongsIdsToStringParameter [3, 14, 15] = Inr ''3,14,15''
   \<and> decimal_value (QString_number 14) = 14
   \<and> SongsIdsToStringParameter [] = Inl IndexOutOfRange
   \<and> RemoveFromFavorites QobuzService_new [] = Inr QobuzService_new
   \<and> (\<exists>s'. RemoveFromFavorites QobuzService_new [3, 14, 15] = Inr s')
   \<and> pending_retrieve_playlists QobuzService_new = {}
   \<and> SetPlaylistSongs QobuzService_new 7 [] = Inl IndexOutOfRange"
proof -
  have e: "comma_join (map QString_number [3, 14, 15]) = ''3,14,15''"
    by code_simp
  have p: "pending_retrieve_playlists QobuzService_new = {}"
    by (simp add: QobuzService_new_def)
  show ?thesis
    using SongsIdsToStringParameter_requires_nonempty [of "[3, 14, 15]" 14 QobuzService_new 7] e p by simp
qed

section \<open>Search requests\<close>

lemma addQueryItems_append:
  "addQueryItems params req = req\<lparr>query_items := query_items req @ params\<rparr>"
  by (induction params arbitrary: req) simp_all

lemma CreateRequest_network:
  "network (snd (CreateRequest s ressource_name params add_auth)) =
     network s @
       [\<lparr>request_url = kBaseUrl @ ressource_name, query_items = params,
         raw_headers =
           (if add_auth
            then [(''x-app-id'', kAppId), (''x-user-auth-token'', access_token s),
                  (''Accept'', ''application/json'')]
            else [(''x-app-id'', kAppId), (''Accept'', ''application/json'')])\<rparr>]"
  by (simp add: CreateRequest_def Let_def setRawHeader_def addQueryItems_append)

lemma CreateRequest_fields:
  "pending_search (snd (CreateRequest s r ps a)) = pending_search s"
  "next_pending_search_id (snd (CreateRequest s r ps a)) = next_pending_search_id s"
  "closures (snd (CreateRequest s r ps a)) = closures s"
  "tasks (snd (CreateRequest s r ps a)) = tasks s"
  "fst (CreateRequest s r ps a) = length (network s)"
  by (simp_all add: CreateRequest_def Let_def)

lemma ClearSearchResults_fields:
  "network (ClearSearchResults s) = network s"
  "pending_search (ClearSearchResults s) = pending_search s"
  "access_token (ClearSearchResults s) = access_token s"
  by (simp_all add: ClearSearchResults_def split: option.splits)

lemma search_limits_printed: "QString_number kSongSearchLimit = ''100''" "QString_number kSongSimpleSearchLimit = ''30''"
  by code_simp+

text \<open>
  Claim C8. Each catalog search sends exactly one request, to /catalog/search, with a
  fixed parameter list: \<^verbatim>\<open>DoSearch\<close> sends limit=100 (\<^verbatim>\<open>kSongSearchLimit\<close>), query=the
  pending search text, type=tracks; \<^verbatim>\<open>SimpleSearch\<close> sends limit=30
  (\<^verbatim>\<open>kSongSimpleSearchLimit\<close>), query=the given text, type=tracks.
\<close>

theorem search_requests_fixed_parameters:
  "network (DoSearch s) =
     network s @
       [\<lparr>request_url = ''http://www.qobuz.com/api.json/0.2/catalog/search'',
         query_items = [(''limit'', ''100''), (''query'', pending_search s), (''type'', ''tracks'')],
         raw_headers = [(''x-app-id'', []), (''x-user-auth-token'', access_token s),
                        (''Accept'', ''application/json'')]\<rparr>]
   \<and> network (snd (SimpleSearch s text)) =
     network s @
       [\<lparr>request_url = ''http://www.qobuz.com/api.json/0.2/catalog/search'',
         query_items = [(''limit'', ''30''), (''query'', text), (''type'', ''tracks'')],
         raw_headers = [(''x-app-id'', []), (''x-user-auth-token'', access_token s),
                        (''Accept'', ''application/json'')]\<rparr>]
   \<and> kSongSearchLimit = 100 \<and> kSongSimpleSearchLimit = 30"
proof -
  have a: "network (DoSearch s) = network (snd (CreateRequest (ClearSearchResults s) kSearch
      [(''limit'', QString_number kSongSearchLimit), (''query'', pending_search s), (''type'', ''tracks'')] True))"
    by (simp add: DoSearch_def Let_def NewClosure_def ClearSearchResults_fields split: prod.splits)
  have b: "network (snd (SimpleSearch s text)) = network (snd (CreateRequest s kSearch
      [(''limit'', QString_number kSongSimpleSearchLimit), (''query'', text), (''type'', ''tracks'')] True))"
    by (simp add: SimpleSearch_def Let_def NewClosure_def split: prod.splits)
  show ?thesis
    unfolding a b CreateRequest_network search_limits_printed
    by (simp add: ClearSearchResults_fields kBaseUrl_def kSearch_def kAppId_def
        kSongSearchLimit_def kSongSimpleSearchLimit_def)
qed

section \<open>Logging out\<close>

text \<open>The two loops in the shape of the source: test the condition, wait, test again.\<close>

lemma Logout_wait_tasks_loop:
  "Logout_wait_tasks env s =
     (if tracked_task_running s
      then (case WaitForSignal env s of
              None \<Rightarrow> None
            | Some (env', s') \<Rightarrow> Logout_wait_tasks env' s')
      else Some (env, s))"
  by (cases env) (simp_all add: WaitForSignal_def)

lemma Logout_wait_playlists_loop:
  "Logout_wait_playlists env s =
     (if pending_retrieve_playlists s \<noteq> {}
      then (case WaitForSignal env s of
              None \<Rightarrow> None
            | Some (env', s') \<Rightarrow> Logout_wait_playlists env' s')
      else Some (env, s))"
  by (cases env) (simp_all add: WaitForSignal_def)

lemma Logout_wait_tasks_done:
  "Logout_wait_tasks env s = Some (env', s') \<Longrightarrow> \<not> tracked_task_running s'"
  by (induction env arbitrary: s) (auto split: if_splits)

lemma Logout_wait_playlists_done:
  "Logout_wait_playlists env s = Some (env', s') \<Longrightarrow> pending_retrieve_playlists s' = {}"
  by (induction env arbitrary: s) (auto split: if_splits)

lemma Logout_wait_tasks_idle:
  "\<not> tracked_task_running s \<Longrightarrow> Logout_wait_tasks env s = Some (env, s)"
  by (cases env) simp_all

lemma Logout_wait_playlists_idle:
  "pending_retrieve_playlists s = {} \<Longrightarrow> Logout_wait_playlists env s = Some (env, s)"
  by (cases env) simp_all

lemma Logout_waits_idle:
  "\<not> tracked_task_running s \<Longrightarrow> pending_retrieve_playlists s = {} \<Longrightarrow>
     Logout_waits env s = Some (env, s)"
  by (simp add: Logout_waits_def Logout_wait_tasks_idle Logout_wait_playlists_idle)

lemma Logout_waits_done:
  "Logout_waits env s = Some (env', s') \<Longrightarrow> pending_retrieve_playlists s' = {}"
  by (auto simp: Logout_waits_def Logout_wait_playlists_done split: option.splits)

lemma Logout_Some:
  "Logout env s = Some (env', s') \<longleftrightarrow>
     (\<exists>st. Logout_waits env (snd (StartTask s)) = Some (env', st)
           \<and> s' = SetTaskFinished (Logout_teardown st) (fst (StartTask s)))"
  by (auto simp: Logout_def split: prod.splits option.splits)

lemma Logout_None:
  "Logout env s = None \<longleftrightarrow> Logout_waits env (snd (StartTask s)) = None"
  by (auto simp: Logout_def split: prod.splits option.splits)

lemma removeRow_item_row: "removeRow (item_row rs it) rs = remove1 it rs"
proof (induction rs)
  case Nil
  then show ?case by (simp add: removeRow_def)
next
  case (Cons r rs)
  show ?case
  proof (cases "r = it")
    case True
    then show ?thesis by (simp add: removeRow_def)
  next
    case False
    show ?thesis
    proof (cases "item_row rs it < 0")
      case True
      with Cons.IH have "remove1 it rs = rs" by (simp add: removeRow_def)
      with True False show ?thesis by (simp add: removeRow_def Let_def)
    next
      case nonneg: False
      show ?thesis
      proof (cases "item_row rs it < int (length rs)")
        case True
        with nonneg Cons.IH have "take (nat (item_row rs it)) rs @ drop (nat (item_row rs it) + 1) rs = remove1 it rs"
          by (simp add: removeRow_def)
        with nonneg True False show ?thesis
          by (simp add: removeRow_def Let_def nat_add_distrib)
      next
        case big: False
        with Cons.IH have "remove1 it rs = rs" by (simp add: removeRow_def)
        with nonneg big False show ?thesis by (simp add: removeRow_def Let_def)
      qed
    qed
  qed
qed

lemma remove_item_remove1:
  "remove_item ptr rs = (case ptr of None \<Rightarrow> rs | Some it \<Rightarrow> remove1 it rs)"
  by (cases ptr) (simp_all add: remove_item_def removeRow_item_row)

lemma set_remove_item:
  "distinct rs \<Longrightarrow> set (remove_item ptr rs) = set rs - set_option ptr"
  by (cases ptr) (simp_all add: remove_item_remove1)

lemma distinct_remove_item: "distinct rs \<Longrightarrow> distinct (remove_item ptr rs)"
  by (cases ptr) (simp_all add: remove_item_remove1)

lemma Logout_teardown_credentials:
  "access_token (Logout_teardown s) = []"
  "user_id (Logout_teardown s) = []"
  "quality (Logout_teardown s) = NONE"
  "settings (Logout_teardown s) ''access_token'' = None"
  "settings (Logout_teardown s) ''user_id'' = None"
  "settings (Logout_teardown s) ''quality'' = None"
  by (simp_all add: Logout_teardown_def Let_def)

lemma Logout_teardown_records:
  "featured_playlists_info (Logout_teardown s) = []"
  "user_playlists_info (Logout_teardown s) = []"
  "pending_search (Logout_teardown s) = []"
  "search (Logout_teardown s) = None"
  "user_favorites (Logout_teardown s) = None"
  "user_playlists (Logout_teardown s) = None"
  "featured_playlists (Logout_teardown s) = None"
  by (simp_all add: Logout_teardown_def Let_def)

lemma Logout_teardown_root_rows:
  "root_rows (Logout_teardown s) =
     remove_item (search s) (remove_item (user_playlists s)
       (remove_item (user_favorites s) (remove_item (featured_playlists s) (root_rows s))))"
  by (simp add: Logout_teardown_def Let_def)

lemma Logout_teardown_nodes_removed:
  assumes "distinct (root_rows s)"
  shows "set (root_rows (Logout_teardown s)) =
           set (root_rows s) - set_option (featured_playlists s) - set_option (user_favorites s)
             - set_option (user_playlists s) - set_option (search s)"
  using assms
  by (simp add: Logout_teardown_root_rows set_remove_item distinct_remove_item)

lemma Logout_teardown_other:
  "tasks (Logout_teardown s) = tasks s"
  "task_search_id (Logout_teardown s) = task_search_id s"
  "emitted (Logout_teardown s) = emitted s"
  "network (Logout_teardown s) = network s"
  by (simp_all add: Logout_teardown_def Let_def)

lemma SetTaskFinished_fields:
  "access_token (SetTaskFinished s t) = access_token s"
  "user_id (SetTaskFinished s t) = user_id s"
  "quality (SetTaskFinished s t) = quality s"
  "settings (SetTaskFinished s t) = settings s"
  "featured_playlists_info (SetTaskFinished s t) = featured_playlists_info s"
  "user_playlists_info (SetTaskFinished s t) = user_playlists_info s"
  "pending_search (SetTaskFinished s t) = pending_search s"
  "search (SetTaskFinished s t) = search s"
  "user_favorites (SetTaskFinished s t) = user_favorites s"
  "user_playlists (SetTaskFinished s t) = user_playlists s"
  "featured_playlists (SetTaskFinished s t) = featured_playlists s"
  "root_rows (SetTaskFinished s t) = root_rows s"
  "emitted (SetTaskFinished s t) = emitted s"
  by (simp_all add: SetTaskFinished_def)

lemma emit_fields:
  "access_token (emit sig s) = access_token s"
  "user_id (emit sig s) = user_id s"
  "quality (emit sig s) = quality s"
  "settings (emit sig s) = settings s"
  "emitted (emit sig s) = emitted s @ [sig]"
  by (simp_all add: emit_def)

lemma Logout_cleared:
  assumes "Logout env s = Some (env', s')"
  shows "access_token s' = [] \<and> user_id s' = [] \<and> quality s' = NONE
         \<and> settings s' ''access_token'' = None \<and> settings s' ''user_id'' = None
         \<and> settings s' ''quality'' = None \<and> \<not> IsLoggedIn s'"
  using assms
  by (auto simp: Logout_Some SetTaskFinished_fields Logout_teardown_credentials IsLoggedIn_def)

lemma ExtractResult_unauthorized:
  "HttpStatusCode rep = UNAUTHORIZED \<Longrightarrow>
     ExtractResult env s rep =
       (case Logout env s of
          None \<Rightarrow> None
        | Some (env', s') \<Rightarrow> Some (env', emit (ReplyError UNAUTHORIZED) s', []))"
  by (simp add: ExtractResult_def Let_def NO_ERROR_def UNAUTHORIZED_def split: option.splits)

lemma ExtractResult_other_error:
  "HttpStatusCode rep \<noteq> NO_ERROR \<Longrightarrow> HttpStatusCode rep \<noteq> UNAUTHORIZED \<Longrightarrow>
     ExtractResult env s rep = Some (env, emit (ReplyError (HttpStatusCode rep)) s, [])"
  by (simp add: ExtractResult_def Let_def)

lemma ExtractResult_ok:
  "HttpStatusCode rep = NO_ERROR \<Longrightarrow>
     ExtractResult env s rep = Some (env, s, toMap (parsed_body rep))"
  by (simp add: ExtractResult_def Let_def)

subsection \<open>Replies with status 401\<close>

text \<open>
  As long as the slots that run during the waits leave some tracked task running, the
  first loop of \<^verbatim>\<open>Logout\<close> does not end.
\<close>

lemma Logout_wait_tasks_blocked:
  assumes "\<forall>during \<in> set env. \<forall>s. tracked_task_running s \<longrightarrow> tracked_task_running (during s)"
    and "tracked_task_running s"
  shows "Logout_wait_tasks env s = None"
  using assms by (induction env arbitrary: s) simp_all

lemma ExtractResult_unauthorized_blocked:
  assumes "HttpStatusCode rep = UNAUTHORIZED"
    and "\<forall>during \<in> set env. \<forall>s. tracked_task_running s \<longrightarrow> tracked_task_running (during s)"
    and "tracked_task_running (snd (StartTask s))"
  shows "ExtractResult env s rep = None"
proof -
  have "Logout_wait_tasks env (snd (StartTask s)) = None"
    using assms(2,3) by (rule Logout_wait_tasks_blocked)
  then have "Logout env s = None"
    by (simp add: Logout_None Logout_waits_def)
  with assms(1) show ?thesis
    by (simp add: ExtractResult_unauthorized)
qed

lemma Logout_wait_tasks_blocked_by:
  assumes "\<forall>during \<in> set env. \<forall>s. P s \<longrightarrow> P (during s)"
    and "P s"
    and "\<And>s. P s \<Longrightarrow> tracked_task_running s"
  shows "Logout_wait_tasks env s = None"
  using assms(1,2)
proof (induction env arbitrary: s)
  case Nil
  then show ?case by (simp add: assms(3))
next
  case (Cons during env)
  then show ?case by (simp add: assms(3))
qed

text \<open>
  The handlers of the tracked requests call \<^verbatim>\<open>ExtractResult\<close> first and finish their task
  last (lines 339 and 346, 363 and 385, 403 and 427, 467 and 477). A reply with status
  401 to such a request therefore makes \<^verbatim>\<open>Logout\<close> wait for the task of its own caller:
  whatever else happens during the waits, as long as that task stays in the task manager
  \<^verbatim>\<open>ExtractResult\<close> does not return.
\<close>

lemma featured_reply_self_deadlock:
  assumes "HttpStatusCode rep = UNAUTHORIZED"
    and "\<forall>during \<in> set env. \<forall>s.
           ContainsTask s (task_featured_playlists_id s) \<longrightarrow>
           ContainsTask (during s) (task_featured_playlists_id (during s))"
  shows "ExtractResult env (RetrieveFeaturedPlaylists s0) rep = None"
proof -
  have "Logout_wait_tasks env (snd (StartTask (RetrieveFeaturedPlaylists s0))) = None"
  proof (rule Logout_wait_tasks_blocked_by [where P = "\<lambda>s. ContainsTask s (task_featured_playlists_id s)"])
    show "\<forall>during \<in> set env. \<forall>s.
           ContainsTask s (task_featured_playlists_id s) \<longrightarrow>
           ContainsTask (during s) (task_featured_playlists_id (during s))"
      by (rule assms(2))
    show "ContainsTask (snd (StartTask (RetrieveFeaturedPlaylists s0)))
            (task_featured_playlists_id (snd (StartTask (RetrieveFeaturedPlaylists s0))))"
      by (simp add: RetrieveFeaturedPlaylists_def StartTask_def CreateRequest_def NewClosure_def
          ContainsTask_def Let_def)
    show "\<And>s. ContainsTask s (task_featured_playlists_id s) \<Longrightarrow> tracked_task_running s"
      by (simp add: tracked_task_running_def)
  qed
  then have "Logout env (RetrieveFeaturedPlaylists s0) = None"
    by (simp add: Logout_None Logout_waits_def)
  with assms(1) show ?thesis
    by (simp add: ExtractResult_unauthorized)
qed

lemma search_reply_self_deadlock:
  assumes "HttpStatusCode rep = UNAUTHORIZED"
    and "\<forall>during \<in> set env. \<forall>s.
           ContainsTask s (task_search_id s) \<longrightarrow> ContainsTask (during s) (task_search_id (during s))"
    and "task_search_id s0 = 0"
  shows "ExtractResult env (Search s0 text now) rep = None"
proof -
  have "Logout_wait_tasks env (snd (StartTask (Search s0 text now))) = None"
  proof (rule Logout_wait_tasks_blocked_by [where P = "\<lambda>s. ContainsTask s (task_search_id s)"])
    show "\<forall>during \<in> set env. \<forall>s.
           ContainsTask s (task_search_id s) \<longrightarrow> ContainsTask (during s) (task_search_id (during s))"
      by (rule assms(2))
    show "ContainsTask (snd (StartTask (Search s0 text now)))
            (task_search_id (snd (StartTask (Search s0 text now))))"
      using assms(3)
      by (simp add: Search_def DoSearch_def ClearSearchResults_def StartTask_def
          CreateRequest_def NewClosure_def ContainsTask_def Let_def split: option.splits)
    show "\<And>s. ContainsTask s (task_search_id s) \<Longrightarrow> tracked_task_running s"
      by (simp add: tracked_task_running_def)
  qed
  then have "Logout env (Search s0 text now) = None"
    by (simp add: Logout_None Logout_waits_def)
  with assms(1) show ?thesis
    by (simp add: ExtractResult_unauthorized)
qed

text \<open>
  What the logout achieves when it does return: the credentials are cleared. With
  nothing in flight it returns at once.
\<close>

lemma ExtractResult_unauthorized_cleared:
  assumes "HttpStatusCode rep = UNAUTHORIZED"
    and "ExtractResult env s rep = Some (env', s', m)"
  shows "access_token s' = [] \<and> user_id s' = [] \<and> quality s' = NONE
         \<and> settings s' ''access_token'' = None \<and> settings s' ''user_id'' = None
         \<and> settings s' ''quality'' = None \<and> \<not> IsLoggedIn s' \<and> m = []"
proof -
  from assms obtain s'' where l: "Logout env s = Some (env', s'')"
    and s': "s' = emit (ReplyError UNAUTHORIZED) s''" and m: "m = []"
    by (auto simp: ExtractResult_unauthorized split: option.splits)
  from Logout_cleared [OF l] m show ?thesis
    by (simp add: s' emit_fields IsLoggedIn_def)
qed

lemma unauthorized_reply_handled_when_idle:
  "IsLoggedIn logged_in
   \<and> ExtractResult [] logged_in reply_unauthorized \<noteq> None
   \<and> \<not> IsLoggedIn (fst (snd (the (ExtractResult [] logged_in reply_unauthorized))))
   \<and> last (emitted (fst (snd (the (ExtractResult [] logged_in reply_unauthorized)))))
       = ReplyError 401"
  by (simp add: ExtractResult_def Logout_def Logout_waits_def Logout_teardown_def
      SetTaskFinished_def emit_def remove_item_def
      logged_in_def QobuzService_new_def StartTask_def
      tracked_task_running_def ContainsTask_def reply_unauthorized_def UNAUTHORIZED_def
      NO_ERROR_def IsLoggedIn_def Let_def)

text \<open>
  Claim C2 fails on the code. A logged-in service has requested the featured playlists,
  so their task is running, and the server answers that request with status 401. The
  handler \<^verbatim>\<open>FeaturedPlaylistsRetrieved\<close> calls \<^verbatim>\<open>ExtractResult\<close> (line 363) before it
  finishes the task (line 385); \<^verbatim>\<open>ExtractResult\<close> calls \<^verbatim>\<open>Logout\<close> (line 618), whose
  first loop waits for that task (lines 272-278). The logout that the code attempts is
  never carried out: \<^verbatim>\<open>ExtractResult\<close> does not return, and the service stays logged in
  with its credentials.
\<close>

theorem unauthorized_reply_logout_blocked:
  "HttpStatusCode reply_unauthorized = UNAUTHORIZED
   \<and> IsLoggedIn (RetrieveFeaturedPlaylists logged_in)
   \<and> ExtractResult [] (RetrieveFeaturedPlaylists logged_in) reply_unauthorized = None"
  by (simp add: ExtractResult_def Logout_def Logout_waits_def RetrieveFeaturedPlaylists_def
      logged_in_def QobuzService_new_def StartTask_def CreateRequest_def NewClosure_def
      tracked_task_running_def ContainsTask_def reply_unauthorized_def UNAUTHORIZED_def
      NO_ERROR_def IsLoggedIn_def Let_def)

subsection \<open>Error replies\<close>

text \<open>
  What holds of the replies that are not answered with 200. For a status other than 401
  \<^verbatim>\<open>ExtractResult\<close> returns the empty map and emits \<^verbatim>\<open>ReplyError\<close> with the status code,
  leaving the rest of the state as it was. Whenever it returns for a status other than
  200, the map is empty and the last signal emitted is \<^verbatim>\<open>ReplyError\<close> with that status
  code; a non-empty map is returned only for status 200.
\<close>

lemma ExtractResult_error_status:
  "(HttpStatusCode rep \<noteq> NO_ERROR \<and> HttpStatusCode rep \<noteq> UNAUTHORIZED \<longrightarrow>
      ExtractResult env s rep = Some (env, emit (ReplyError (HttpStatusCode rep)) s, []))
   \<and> (\<forall>env' s' m. ExtractResult env s rep = Some (env', s', m) \<longrightarrow>
         (HttpStatusCode rep \<noteq> NO_ERROR \<longrightarrow>
            m = [] \<and> emitted s' \<noteq> [] \<and> last (emitted s') = ReplyError (HttpStatusCode rep))
         \<and> (m \<noteq> [] \<longrightarrow> HttpStatusCode rep = NO_ERROR))"
proof -
  have a: "ExtractResult env s rep = Some (env, emit (ReplyError (HttpStatusCode rep)) s, [])"
    if "HttpStatusCode rep \<noteq> NO_ERROR \<and> HttpStatusCode rep \<noteq> UNAUTHORIZED"
    using that by (simp add: ExtractResult_other_error)
  have c: "m = [] \<and> emitted s' \<noteq> [] \<and> last (emitted s') = ReplyError (HttpStatusCode rep)"
    if r: "ExtractResult env s rep = Some (env', s', m)" and e: "HttpStatusCode rep \<noteq> NO_ERROR"
    for env' s' m
  proof (cases "HttpStatusCode rep = UNAUTHORIZED")
    case True
    with r ExtractResult_unauthorized [OF True, of env s] show ?thesis
      by (auto simp: emit_fields split: option.splits)
  next
    case False
    with r e a show ?thesis by (auto simp: emit_fields)
  qed
  from a c show ?thesis by blast
qed

text \<open>
  Claim C7 fails on the code. A search is running and the server answers its request
  with status 401. The handler \<^verbatim>\<open>SearchFinished\<close> calls \<^verbatim>\<open>ExtractResult\<close> (line 467)
  before it finishes the search task (line 477); \<^verbatim>\<open>ExtractResult\<close> calls \<^verbatim>\<open>Logout\<close>
  (line 618) before it emits \<^verbatim>\<open>ReplyError\<close> and returns the empty map (lines 621-622),
  and the first loop of \<^verbatim>\<open>Logout\<close> waits for the search task (lines 272-278). So
  \<^verbatim>\<open>ExtractResult\<close> returns no map and emits no \<^verbatim>\<open>ReplyError\<close>.
\<close>

theorem ExtractResult_unauthorized_never_returns:
  "HttpStatusCode reply_unauthorized \<noteq> NO_ERROR
   \<and> ExtractResult [] (Search logged_in ''abba'' True) reply_unauthorized = None"
  by (simp add: ExtractResult_def Logout_def Logout_waits_def Search_def DoSearch_def
      ClearSearchResults_def
      logged_in_def QobuzService_new_def StartTask_def CreateRequest_def NewClosure_def
      tracked_task_running_def ContainsTask_def reply_unauthorized_def UNAUTHORIZED_def
      NO_ERROR_def Let_def)

subsection \<open>Destroying records\<close>

lemma ClearSearchResults_rows:
  "search s = Some it \<Longrightarrow> rows (ClearSearchResults s) it = 0"
  by (simp add: ClearSearchResults_def)

lemma Search_empty:
  "Search s [] now =
     ClearSearchResults
       ((if task_search_id s = 0
         then (snd (StartTask (s\<lparr>pending_search := []\<rparr>)))\<lparr>task_search_id := next_task_id s\<rparr>
         else s\<lparr>pending_search := []\<rparr>)\<lparr>search_delay_active := False\<rparr>)"
  by (simp add: Search_def Let_def StartTask_def)

lemma Search_empty_effect:
  "network (Search s [] now) = network s"
  "closures (Search s [] now) = closures s"
  "\<not> search_delay_active (Search s [] now)"
  "search s = Some it \<Longrightarrow> rows (Search s [] now) it = 0"
  by (simp_all add: Search_empty ClearSearchResults_def StartTask_def split: option.splits)

text \<open>
  Claim C6. After \<^verbatim>\<open>Logout\<close> has returned, both playlist-info maps are empty, the pending
  search text is empty, and the four item pointers are null; the items they pointed to
  when the waits ended are no longer rows of the root (every other row is kept), a tree
  item occupying one row. \<^verbatim>\<open>Search\<close> with an empty text sends no request, binds no
  reply handler, stops the delay timer and leaves the search-results item without rows.
\<close>

theorem Logout_and_empty_Search_destroy_records:
  "(\<forall>env' s'. Logout env s = Some (env', s') \<longrightarrow>
      featured_playlists_info s' = [] \<and> user_playlists_info s' = [] \<and> pending_search s' = []
      \<and> search s' = None \<and> user_favorites s' = None \<and> featured_playlists s' = None
      \<and> user_playlists s' = None
      \<and> (\<exists>st. Logout_waits env (snd (StartTask s)) = Some (env', st)
            \<and> (distinct (root_rows st) \<longrightarrow>
                 set (root_rows s') =
                   set (root_rows st) - set_option (featured_playlists st)
                     - set_option (user_favorites st) - set_option (user_playlists st)
                     - set_option (search st))))
   \<and> network (Search s [] now) = network s
   \<and> closures (Search s [] now) = closures s
   \<and> \<not> search_delay_active (Search s [] now)
   \<and> (\<forall>it. search s = Some it \<longrightarrow> rows (Search s [] now) it = 0)"
proof -
  have a: "featured_playlists_info s' = [] \<and> user_playlists_info s' = [] \<and> pending_search s' = []
      \<and> search s' = None \<and> user_favorites s' = None \<and> featured_playlists s' = None
      \<and> user_playlists s' = None
      \<and> (\<exists>st. Logout_waits env (snd (StartTask s)) = Some (env', st)
            \<and> (distinct (root_rows st) \<longrightarrow>
                 set (root_rows s') =
                   set (root_rows st) - set_option (featured_playlists st)
                     - set_option (user_favorites st) - set_option (user_playlists st)
                     - set_option (search st)))"
    if "Logout env s = Some (env', s')" for env' s'
  proof -
    from that obtain st where w: "Logout_waits env (snd (StartTask s)) = Some (env', st)"
      and s': "s' = SetTaskFinished (Logout_teardown st) (fst (StartTask s))"
      by (auto simp: Logout_Some)
    have "distinct (root_rows st) \<longrightarrow>
                 set (root_rows s') =
                   set (root_rows st) - set_option (featured_playlists st)
                     - set_option (user_favorites st) - set_option (user_playlists st)
                     - set_option (search st)"
      by (simp add: s' SetTaskFinished_fields Logout_teardown_nodes_removed)
    with w show ?thesis
      by (simp add: s' SetTaskFinished_fields Logout_teardown_records)
  qed
  from a Search_empty_effect [where s = s and now = now] show ?thesis by blast
qed

lemma browsing_idle:
  "\<not> tracked_task_running (snd (StartTask browsing))"
  "pending_retrieve_playlists (snd (StartTask browsing)) = {}"
  by (simp_all add: browsing_def logged_in_def QobuzService_new_def StartTask_def
      tracked_task_running_def ContainsTask_def)

lemma browsing_fields:
  "root_rows (snd (StartTask browsing)) = [1, 2, 3, 4]"
  "featured_playlists (snd (StartTask browsing)) = Some 3"
  "user_favorites (snd (StartTask browsing)) = Some 2"
  "user_playlists (snd (StartTask browsing)) = Some 4"
  "search (snd (StartTask browsing)) = Some 1"
  "search browsing = Some 1"
  "rows browsing 1 = 2"
  "user_playlists_info browsing \<noteq> []"
  "pending_search browsing \<noteq> []"
  by (simp_all add: browsing_def logged_in_def QobuzService_new_def StartTask_def)

text \<open>
  Logging out of the browsing service, which has nothing in flight, and clearing its
  search box.
\<close>

theorem Logout_and_empty_Search_destroy_records_witness:
  "Logout [] browsing \<noteq> None
   \<and> user_playlists_info browsing \<noteq> []
   \<and> pending_search browsing \<noteq> []
   \<and> root_rows (snd (StartTask browsing)) = [1, 2, 3, 4]
   \<and> featured_playlists_info (snd (the (Logout [] browsing))) = []
   \<and> user_playlists_info (snd (the (Logout [] browsing))) = []
   \<and> pending_search (snd (the (Logout [] browsing))) = []
   \<and> search (snd (the (Logout [] browsing))) = None
   \<and> set (root_rows (snd (the (Logout [] browsing)))) = {}
   \<and> search browsing = Some 1
   \<and> rows browsing 1 = 2
   \<and> rows (Search browsing [] False) 1 = 0
   \<and> network (Search browsing [] False) = network browsing"
proof -
  note t = Logout_and_empty_Search_destroy_records [of "[]" browsing False]
  have w: "Logout_waits [] (snd (StartTask browsing)) = Some ([], snd (StartTask browsing))"
    using browsing_idle by (rule Logout_waits_idle)
  then have "Logout [] browsing \<noteq> None"
    by (simp add: Logout_None)
  then obtain env' s' where r: "Logout [] browsing = Some (env', s')"
    by auto
  with t w have "featured_playlists_info s' = [] \<and> user_playlists_info s' = []
      \<and> pending_search s' = [] \<and> search s' = None
      \<and> set (root_rows s') =
          set (root_rows (snd (StartTask browsing)))
            - set_option (featured_playlists (snd (StartTask browsing)))
            - set_option (user_favorites (snd (StartTask browsing)))
            - set_option (user_playlists (snd (StartTask browsing)))
            - set_option (search (snd (StartTask browsing)))"
    by (auto simp: browsing_fields)
  then have "featured_playlists_info s' = [] \<and> user_playlists_info s' = []
      \<and> pending_search s' = [] \<and> search s' = None \<and> set (root_rows s') = {}"
    by (auto simp: browsing_fields)
  with t r browsing_fields show ?thesis by simp
qed

subsection \<open>Tearing down while a task runs\<close>

text \<open>
  Claim C3 fails on the code. The service waits for the songs of playlist 7, no tracked
  task is running, and \<^verbatim>\<open>Logout\<close> is called: its first loop ends at once and its second
  loop waits for \<^verbatim>\<open>PlaylistRetrieved\<close>. During that wait the user types in the search
  box, which starts the tracked search task, and then the playlist arrives. The second
  loop ends and, the first condition not being looked at again, \<^verbatim>\<open>Logout\<close> clears the
  credentials and removes the tree items while the search task is in the task manager
  and the search timer is running.
\<close>

theorem Logout_tears_down_while_search_task_runs:
  "\<not> tracked_task_running (snd (StartTask (RefreshPlaylist browsing 7)))
   \<and> pending_retrieve_playlists (RefreshPlaylist browsing 7) = {0}
   \<and> Logout [typing_then_playlist_retrieved] (RefreshPlaylist browsing 7) \<noteq> None
   \<and> tracked_task_running
       (snd (the (Logout_waits [typing_then_playlist_retrieved]
                    (snd (StartTask (RefreshPlaylist browsing 7))))))
   \<and> \<not> IsLoggedIn (snd (the (Logout [typing_then_playlist_retrieved] (RefreshPlaylist browsing 7))))
   \<and> search (snd (the (Logout [typing_then_playlist_retrieved] (RefreshPlaylist browsing 7)))) = None
   \<and> root_rows (snd (the (Logout [typing_then_playlist_retrieved] (RefreshPlaylist browsing 7)))) = []
   \<and> tracked_task_running
       (snd (the (Logout [typing_then_playlist_retrieved] (RefreshPlaylist browsing 7))))
   \<and> search_delay_active
       (snd (the (Logout [typing_then_playlist_retrieved] (RefreshPlaylist browsing 7))))"
  by (simp add: Logout_def Logout_waits_def Logout_teardown_def RefreshPlaylist_def
      typing_then_playlist_retrieved_def Search_def emit_def SetTaskFinished_def
      browsing_def logged_in_def QobuzService_new_def StartTask_def CreateRequest_def
      NewClosure_def tracked_task_running_def ContainsTask_def IsLoggedIn_def
      remove_item_def removeRow_def Let_def)

section \<open>Projecting songs\<close>

lemma Song_default_invalid: "\<not> is_valid Song_default"
  by (simp add: is_valid_def Song_default_def)

lemma ExtractSong_valid_iff:
  "is_valid (ExtractSong qt m) \<longleftrightarrow> m \<noteq> [] \<and> toBool (map_value m ''streamable'')"
  by (simp add: ExtractSong_def is_valid_def Song_default_def Let_def)

lemma ExtractSongs_loop_filter:
  "ExtractSongs_loop qt items songs =
     songs @ filter is_valid (map (\<lambda>item. ExtractSong qt (toMap item)) items)"
  by (induction items arbitrary: songs) (simp_all add: Let_def)

lemma ExtractSongs_filter:
  "ExtractSongs qt result =
     filter is_valid
       (map (\<lambda>item. ExtractSong qt (toMap item)) (toList (map_value (toMap result) ''items'')))"
  by (simp add: ExtractSongs_def ExtractSongs_loop_filter)





section \<open>Signing the streaming request\<close>

lemma append_params_concat:
  "append_params ps sig = sig @ concat (map (\<lambda>p. fst p @ snd p) ps)"
  by (induction ps arbitrary: sig) simp_all

lemma hex_digits_lowercase:
  "list_all (\<lambda>d. hex_digit d \<in> set ''0123456789abcdef'') [0..<16]"
  by code_simp

lemma hex_digit_lowercase: "d < 16 \<Longrightarrow> hex_digit d \<in> set ''0123456789abcdef''"
  using hex_digits_lowercase by (simp add: list_all_iff)

lemma of_char_less_256: "(of_char c :: nat) < 256"
  by (cases c) (simp add: of_char_def bit_simps; linarith?)

lemma toHex_lowercase: "set (toHex bytes) \<subseteq> set ''0123456789abcdef''"
proof -
  have "hex_digit (of_char b div 16) \<in> set ''0123456789abcdef''
      \<and> hex_digit (of_char b mod 16) \<in> set ''0123456789abcdef''" for b
  proof -
    have "(of_char b :: nat) div 16 < 16" using of_char_less_256 [of b] by arith
    moreover have "(of_char b :: nat) mod 16 < 16" by simp
    ultimately show ?thesis using hex_digit_lowercase by blast
  qed
  then show ?thesis unfolding toHex_def by (induction bytes) auto
qed

lemma toHex_length: "length (toHex bytes) = 2 * length bytes"
  unfolding toHex_def by (induction bytes) simp_all

lemma endpoint_without_slashes: "QString_remove CHR ''/'' kSteamUrl = ''trackgetFileUrl''"
  by (simp add: QString_remove_def kSteamUrl_def)

lemma streaming_parameters_eq:
  "streaming_parameters qt now qual ident =
     [(''format_id'', QString_number qual), (''intent'', ''stream''), (''track_id'', ident),
      (''request_ts'', QString_number now),
      (''request_sig'',
         toHex (QCryptographicHash_Md5 qt
           (''trackgetFileUrl'' @ ''format_id'' @ QString_number qual @ ''intent'' @ ''stream''
              @ ''track_id'' @ ident @ QString_number now @ kAppSecret)))]"
  by (simp add: streaming_parameters_def Let_def endpoint_without_slashes)

lemma WaitForSignal_Cons: "WaitForSignal (during # env) s = Some (env, during s)"
  by (simp add: WaitForSignal_def)

text \<open>
  Claim C4. The request for the streaming URL carries the parameters format_id (the
  quality), intent=stream, track_id (the song id), request_ts and request_sig, in this
  order. The signature is the hexadecimal form, in lowercase digits, of the MD5 digest
  of "trackgetFileUrl" followed by the names and values of the first three parameters,
  the time stamp and the application secret. When the reply has finished with status
  200, the function returns the field "url" of the JSON object in the reply, and the
  request has been sent to /track/getFileUrl with the user's token. \<^verbatim>\<open>StartLoading\<close>
  passes the path of the song URL as the id.
\<close>

theorem GetStreamingUrlFromSongId_signed_request:
  "streaming_parameters qt now (quality s) ident =
     [(''format_id'', QString_number (quality s)), (''intent'', ''stream''), (''track_id'', ident),
      (''request_ts'', QString_number now),
      (''request_sig'',
         toHex (QCryptographicHash_Md5 qt
           (''trackgetFileUrl'' @ ''format_id'' @ QString_number (quality s) @ ''intent''
              @ ''stream'' @ ''track_id'' @ ident @ QString_number now @ kAppSecret)))]
   \<and> set (toHex (QCryptographicHash_Md5 qt text)) \<subseteq> set ''0123456789abcdef''
   \<and> (HttpStatusCode answer = NO_ERROR \<longrightarrow>
        GetStreamingUrlFromSongId qt now answer (during # env) s ident =
          Some (env,
                during (s\<lparr>network := network s @
                  [\<lparr>request_url = ''http://www.qobuz.com/api.json/0.2/track/getFileUrl'',
                    query_items = streaming_parameters qt now (quality s) ident,
                    raw_headers = [(''x-app-id'', []), (''x-user-auth-token'', access_token s),
                                   (''Accept'', ''application/json'')]\<rparr>]\<rparr>),
                toUrl (map_value (toMap (parsed_body answer)) ''url'')))
   \<and> StartLoading qt now answer env0 s u =
       (case GetStreamingUrlFromSongId qt now answer env0 s (url_path u) of
          None \<Rightarrow> None
        | Some (env', s', real_url) \<Rightarrow> Some (env', s', u, TrackAvailable, real_url))"
proof -
  have c: "CreateRequest s kSteamUrl ps True =
      (length (network s),
       s\<lparr>network := network s @
                  [\<lparr>request_url = ''http://www.qobuz.com/api.json/0.2/track/getFileUrl'',
                    query_items = ps,
                    raw_headers = [(''x-app-id'', []), (''x-user-auth-token'', access_token s),
                                   (''Accept'', ''application/json'')]\<rparr>]\<rparr>)" for ps
    by (simp add: CreateRequest_def Let_def setRawHeader_def addQueryItems_append
        kBaseUrl_def kSteamUrl_def kAppId_def)
  have g: "GetStreamingUrlFromSongId qt now answer (during # env) s ident =
          Some (env,
                during (s\<lparr>network := network s @
                  [\<lparr>request_url = ''http://www.qobuz.com/api.json/0.2/track/getFileUrl'',
                    query_items = streaming_parameters qt now (quality s) ident,
                    raw_headers = [(''x-app-id'', []), (''x-user-auth-token'', access_token s),
                                   (''Accept'', ''application/json'')]\<rparr>]\<rparr>),
                toUrl (map_value (toMap (parsed_body answer)) ''url''))"
    if "HttpStatusCode answer = NO_ERROR"
    using that
    by (simp add: GetStreamingUrlFromSongId_def Let_def c WaitForSignal_Cons ExtractResult_ok)
  have l: "StartLoading qt now answer env0 s u =
       (case GetStreamingUrlFromSongId qt now answer env0 s (url_path u) of
          None \<Rightarrow> None
        | Some (env', s', real_url) \<Rightarrow> Some (env', s', u, TrackAvailable, real_url))"
    by (simp add: StartLoading_def Let_def)
  show ?thesis
    apply (intro conjI impI)
       apply (rule streaming_parameters_eq)
      apply (rule toHex_lowercase)
     apply (erule g)
    apply (rule l)
    done
qed

lemma example_signature:
  "streaming_parameters Qt_example 1700000000 5 ''1234'' =
     [(''format_id'', ''5''), (''intent'', ''stream''), (''track_id'', ''1234''),
      (''request_ts'', ''1700000000''),
      (''request_sig'', ''30313233343536373839616263646566'')]"
proof -
  have n: "QString_number 5 = ''5''" "QString_number 1700000000 = ''1700000000''"
    by (simp_all add: QString_number_def number_digits.simps digit_char_def)
  have h: "toHex ''0123456789abcdef'' = ''30313233343536373839616263646566''"
    by (simp add: toHex_def hex_digit_def)
  show ?thesis
    by (simp add: streaming_parameters_eq n h Qt_example_def)
qed

text \<open>
  Song 1234 at MP3 quality, at time 1700000000, with the stand-in digest.
\<close>

theorem GetStreamingUrlFromSongId_signed_request_witness:
  "HttpStatusCode reply_track_url = NO_ERROR
   \<and> quality logged_in = 5
   \<and> streaming_parameters Qt_example 1700000000 (quality logged_in) ''1234'' =
     [(''format_id'', ''5''), (''intent'', ''stream''), (''track_id'', ''1234''),
      (''request_ts'', ''1700000000''),
      (''request_sig'', ''30313233343536373839616263646566'')]
   \<and> GetStreamingUrlFromSongId Qt_example 1700000000 reply_track_url [id] logged_in ''1234'' =
       Some ([],
             logged_in\<lparr>network :=
               [\<lparr>request_url = ''http://www.qobuz.com/api.json/0.2/track/getFileUrl'',
                 query_items =
                   [(''format_id'', ''5''), (''intent'', ''stream''), (''track_id'', ''1234''),
                    (''request_ts'', ''1700000000''),
                    (''request_sig'', ''30313233343536373839616263646566'')],
                 raw_headers = [(''x-app-id'', []), (''x-user-auth-token'', ''token''),
                                (''Accept'', ''application/json'')]\<rparr>]\<rparr>,
             ''http://cdn.example/track.flac'')"
proof -
  have a: "HttpStatusCode reply_track_url = NO_ERROR"
    by (simp add: reply_track_url_def NO_ERROR_def)
  have q: "quality logged_in = 5" "network logged_in = []" "access_token logged_in = ''token''"
    by (simp_all add: logged_in_def QobuzService_new_def MP3_def)
  have u: "toUrl (map_value (toMap (parsed_body reply_track_url)) ''url'') =
      ''http://cdn.example/track.flac''"
    by (simp add: reply_track_url_def map_value_def)
  from GetStreamingUrlFromSongId_signed_request
    [of Qt_example 1700000000 logged_in "''1234''" "[]" reply_track_url id "[]" "[]"
       "\<lparr>url_scheme = ''qobuz'', url_path = ''1234''\<rparr>"]
  show ?thesis
    using a q u example_signature by simp
qed

section \<open>Routing search replies\<close>

lemma SimpleSearch_ident:
  "fst (SimpleSearch s query) = next_pending_search_id s"
  "next_pending_search_id (snd (SimpleSearch s query)) = next_pending_search_id s + 1"
  by (simp_all add: SimpleSearch_def CreateRequest_def NewClosure_def Let_def)

lemma SearchAsync_effect:
  "next_pending_search_id (fst (SearchAsync base sp ident query)) =
     next_pending_search_id (fst sp) + 1"
  "map_of (pending_searches (snd (SearchAsync base sp ident query))) =
     (map_of (pending_searches (snd sp)))
       (next_pending_search_id (fst sp) \<mapsto> \<lparr>orig_id = ident, tokens = TokenizeQuery base query\<rparr>)"
  using SimpleSearch_ident [of "fst sp" query]
  by (auto simp: SearchAsync_def update_conv' split: prod.splits)

lemma results_of_map: "results_of songs ret = ret @ map (\<lambda>song. \<lparr>metadata = song\<rparr>) songs"
  by (induction songs arbitrary: ret) simp_all

lemma SearchDone_pending:
  "map_of (pending_searches (SearchDone base p k songs)) = (map_of (pending_searches p))(k := None)"
  by (simp add: SearchDone_def take_pending_def MaybeSearchFinished_def Let_def delete_conv')

lemma SearchDone_emitted:
  assumes "map_of (pending_searches p) k = Some st"
  shows "\<exists>rest. provider_emitted (SearchDone base p k songs) =
           provider_emitted p
             @ ResultsAvailable (orig_id st) (map (\<lambda>song. \<lparr>metadata = song\<rparr>) songs) # rest
         \<and> (rest = [] \<or> rest = [SearchFinished (orig_id st)])"
  using assms
  by (simp add: SearchDone_def take_pending_def MaybeSearchFinished_def Let_def results_of_map)

lemma calls_Cons:
  "calls (ev # evs) = (if is_call ev then Suc (calls evs) else calls evs)"
  by (simp add: calls_def)

lemma run_Cons: "run base sp (ev # evs) = run base (step base sp ev) evs"
  by (simp add: run_def)

lemma run_Nil: "run base sp [] = sp"
  by (simp add: run_def)

lemma run_counter:
  "next_pending_search_id (fst (run base sp evs)) =
     next_pending_search_id (fst sp) + of_nat (calls evs)"
proof (induction evs arbitrary: sp)
  case Nil
  then show ?case by (simp add: run_Nil calls_def)
next
  case (Cons ev evs)
  then show ?case
    by (cases ev) (simp_all add: run_Cons calls_Cons SearchAsync_effect)
qed

lemma run_keeps_absent:
  assumes "map_of (pending_searches (snd sp)) k = None"
    and "\<forall>j < calls evs. next_pending_search_id (fst sp) + of_nat j \<noteq> k"
  shows "map_of (pending_searches (snd (run base sp evs))) k = None"
  using assms
proof (induction evs arbitrary: sp)
  case Nil
  then show ?case by (simp add: run_Nil)
next
  case (Cons ev evs)
  show ?case
  proof (cases ev)
    case (Call_SearchAsync ident query)
    from Cons.prems(2) have ne: "next_pending_search_id (fst sp) \<noteq> k"
      by (auto simp: calls_Cons Call_SearchAsync dest: spec [of _ 0])
    have later: "\<forall>j < calls evs. next_pending_search_id (fst sp) + 1 + of_nat j \<noteq> k"
    proof (intro allI impI)
      fix j assume "j < calls evs"
      then have "Suc j < calls (ev # evs)" by (simp add: calls_Cons Call_SearchAsync)
      with Cons.prems(2) have "next_pending_search_id (fst sp) + of_nat (Suc j) \<noteq> k" by blast
      then show "next_pending_search_id (fst sp) + 1 + of_nat j \<noteq> k" by (simp add: add.assoc)
    qed
    have "map_of (pending_searches (snd (run base (SearchAsync base sp ident query) evs))) k = None"
      by (rule Cons.IH) (use Cons.prems(1) ne later in \<open>simp_all add: SearchAsync_effect\<close>)
    then show ?thesis by (simp add: run_Cons Call_SearchAsync)
  next
    case (Emit_SimpleSearchResults k' songs)
    have "map_of (pending_searches (snd (run base (fst sp, SearchDone base (snd sp) k' songs) evs))) k = None"
      by (rule Cons.IH) (use Cons.prems in \<open>simp_all add: SearchDone_pending calls_Cons Emit_SimpleSearchResults\<close>)
    then show ?thesis by (simp add: run_Cons Emit_SimpleSearchResults)
  qed
qed

lemma run_keeps_pending:
  assumes "map_of (pending_searches (snd sp)) k = Some st"
    and "\<forall>ev \<in> set evs. \<not> emits k ev"
    and "\<forall>j < calls evs. next_pending_search_id (fst sp) + of_nat j \<noteq> k"
  shows "map_of (pending_searches (snd (run base sp evs))) k = Some st"
  using assms
proof (induction evs arbitrary: sp)
  case Nil
  then show ?case by (simp add: run_Nil)
next
  case (Cons ev evs)
  show ?case
  proof (cases ev)
    case (Call_SearchAsync ident query)
    from Cons.prems(3) have ne: "next_pending_search_id (fst sp) \<noteq> k"
      by (auto simp: calls_Cons Call_SearchAsync dest: spec [of _ 0])
    have later: "\<forall>j < calls evs. next_pending_search_id (fst sp) + 1 + of_nat j \<noteq> k"
    proof (intro allI impI)
      fix j assume "j < calls evs"
      then have "Suc j < calls (ev # evs)" by (simp add: calls_Cons Call_SearchAsync)
      with Cons.prems(3) have "next_pending_search_id (fst sp) + of_nat (Suc j) \<noteq> k" by blast
      then show "next_pending_search_id (fst sp) + 1 + of_nat j \<noteq> k" by (simp add: add.assoc)
    qed
    have "map_of (pending_searches (snd (run base (SearchAsync base sp ident query) evs))) k = Some st"
      by (rule Cons.IH) (use Cons.prems(1,2) ne later in \<open>simp_all add: SearchAsync_effect\<close>)
    then show ?thesis by (simp add: run_Cons Call_SearchAsync)
  next
    case (Emit_SimpleSearchResults k' songs)
    with Cons.prems(2) have "k' \<noteq> k" by auto
    then have "map_of (pending_searches (snd (run base (fst sp, SearchDone base (snd sp) k' songs) evs))) k = Some st"
      by (intro Cons.IH) (use Cons.prems in \<open>simp_all add: SearchDone_pending calls_Cons Emit_SimpleSearchResults\<close>)
    then show ?thesis by (simp add: run_Cons Emit_SimpleSearchResults)
  qed
qed

lemma counter_no_wrap:
  fixes n :: "32 word"
  assumes "j < c" and "c < 2 ^ 32"
  shows "n + of_nat j \<noteq> n + of_nat c"
proof
  assume "n + of_nat j = n + of_nat c"
  then have "(of_nat j :: 32 word) = of_nat c" by simp
  then have "unat (of_nat j :: 32 word) = unat (of_nat c :: 32 word)" by simp
  with assms show False by (simp add: unat_of_nat)
qed

lemma SimpleSearch_closure:
  "closures (snd (SimpleSearch s query)) =
     closures s @ [(length (network s), SLOT_SimpleSearchFinished (fst (SimpleSearch s query)))]"
  by (simp add: SimpleSearch_def CreateRequest_def NewClosure_def Let_def)

lemma SimpleSearchFinished_emits:
  assumes "SimpleSearchFinished qt env s rep k = Some (env', s')"
  shows "\<exists>songs. emitted s' \<noteq> [] \<and> last (emitted s') = SimpleSearchResults k songs"
  using assms
  by (auto simp: SimpleSearchFinished_def emit_def split: option.splits)

text \<open>
  Claim C1. \<^verbatim>\<open>SearchAsync(id, query)\<close> stores the caller's context under the request
  identifier that \<^verbatim>\<open>SimpleSearch(query)\<close> returns, which is the value of the counter
  before the call. The identifier is fresh: no entry is stored under it when the table
  was empty at first and fewer than \<open>2^32\<close> searches have been issued since. The entry
  stays in place through any later calls of \<^verbatim>\<open>SearchAsync\<close> (fewer than \<open>2^32 - 1\<close> of
  them, so that the 32-bit counter does not come round to the identifier again) and any
  emissions of \<^verbatim>\<open>SimpleSearchResults\<close> for other identifiers. When the service then
  emits \<^verbatim>\<open>SimpleSearchResults\<close> with that identifier, \<^verbatim>\<open>SearchDone\<close> removes the entry
  and emits \<^verbatim>\<open>ResultsAvailable\<close> with the caller's original id and one result per song,
  followed at most by \<^verbatim>\<open>SearchFinished\<close> for the same id. On the side of the service,
  \<^verbatim>\<open>SimpleSearch\<close> binds the identifier it returns to the reply of its request, and
  \<^verbatim>\<open>SimpleSearchFinished\<close>, whenever it returns, has emitted \<^verbatim>\<open>SimpleSearchResults\<close> with
  the identifier it was given.
\<close>

theorem search_reply_routed_to_caller:
  assumes "\<forall>ev \<in> set evs. \<not> emits (fst (SimpleSearch (fst sp) query)) ev"
    and "calls evs < 2 ^ 32 - 1"
  shows
    "fst (SimpleSearch (fst sp) query) = next_pending_search_id (fst sp)
     \<and> (\<forall>service0 p0 evs0.
           sp = run base (service0, p0) evs0 \<and> pending_searches p0 = [] \<and> calls evs0 < 2 ^ 32 \<longrightarrow>
           map_of (pending_searches (snd sp)) (fst (SimpleSearch (fst sp) query)) = None)
     \<and> map_of (pending_searches (snd (SearchAsync base sp ident query)))
          (fst (SimpleSearch (fst sp) query))
        = Some \<lparr>orig_id = ident, tokens = TokenizeQuery base query\<rparr>
     \<and> map_of (pending_searches (snd (run base (SearchAsync base sp ident query) evs)))
          (fst (SimpleSearch (fst sp) query))
        = Some \<lparr>orig_id = ident, tokens = TokenizeQuery base query\<rparr>
     \<and> map_of (pending_searches
          (snd (step base (run base (SearchAsync base sp ident query) evs)
                  (Emit_SimpleSearchResults (fst (SimpleSearch (fst sp) query)) songs))))
          (fst (SimpleSearch (fst sp) query))
        = None
     \<and> (\<exists>rest.
           provider_emitted
             (snd (step base (run base (SearchAsync base sp ident query) evs)
                     (Emit_SimpleSearchResults (fst (SimpleSearch (fst sp) query)) songs)))
           = provider_emitted (snd (run base (SearchAsync base sp ident query) evs))
               @ ResultsAvailable ident (map (\<lambda>song. \<lparr>metadata = song\<rparr>) songs) # rest
           \<and> (rest = [] \<or> rest = [SearchFinished ident]))
     \<and> closures (snd (SimpleSearch (fst sp) query)) =
         closures (fst sp)
           @ [(length (network (fst sp)),
               SLOT_SimpleSearchFinished (fst (SimpleSearch (fst sp) query)))]
     \<and> (\<forall>qt env s rep k env' s'.
           SimpleSearchFinished qt env s rep k = Some (env', s') \<longrightarrow>
           (\<exists>found. emitted s' \<noteq> [] \<and> last (emitted s') = SimpleSearchResults k found))"
proof -
  let ?sid = "next_pending_search_id (fst sp)"
  let ?st = "\<lparr>orig_id = ident, tokens = TokenizeQuery base query\<rparr>"
  let ?sp1 = "SearchAsync base sp ident query"
  let ?sp2 = "run base ?sp1 evs"
  have sid: "fst (SimpleSearch (fst sp) query) = ?sid"
    by (rule SimpleSearch_ident)
  have fresh: "map_of (pending_searches (snd sp)) ?sid = None"
    if "sp = run base (service0, p0) evs0 \<and> pending_searches p0 = [] \<and> calls evs0 < 2 ^ 32"
    for service0 p0 evs0
  proof -
    from that have sp: "sp = run base (service0, p0) evs0" and e: "pending_searches p0 = []"
      and c: "calls evs0 < 2 ^ 32" by simp_all
    have n: "?sid = next_pending_search_id service0 + of_nat (calls evs0)"
      by (simp add: sp run_counter)
    have "map_of (pending_searches (snd (run base (service0, p0) evs0))) ?sid = None"
    proof (rule run_keeps_absent)
      show "map_of (pending_searches (snd (service0, p0))) ?sid = None" by (simp add: e)
      show "\<forall>j<calls evs0. next_pending_search_id (fst (service0, p0)) + of_nat j \<noteq> ?sid"
        using counter_no_wrap [OF _ c] by (simp add: n)
    qed
    then show ?thesis by (simp add: sp)
  qed
  have stored: "map_of (pending_searches (snd ?sp1)) ?sid = Some ?st"
    by (simp add: SearchAsync_effect)
  have later: "\<forall>j < calls evs. next_pending_search_id (fst ?sp1) + of_nat j \<noteq> ?sid"
  proof (intro allI impI)
    fix j assume "j < calls evs"
    with assms(2) have "0 < Suc j" "Suc j < 2 ^ 32" by simp_all
    from counter_no_wrap [OF this, of ?sid]
    show "next_pending_search_id (fst ?sp1) + of_nat j \<noteq> ?sid"
      by (simp add: SearchAsync_effect add.assoc)
  qed
  have kept: "map_of (pending_searches (snd ?sp2)) ?sid = Some ?st"
    using stored assms(1) later unfolding sid by (rule run_keeps_pending)
  have gone: "map_of (pending_searches
      (snd (step base ?sp2 (Emit_SimpleSearchResults ?sid songs)))) ?sid = None"
    by (simp add: SearchDone_pending)
  have emitted: "\<exists>rest.
      provider_emitted (snd (step base ?sp2 (Emit_SimpleSearchResults ?sid songs)))
        = provider_emitted (snd ?sp2)
            @ ResultsAvailable ident (map (\<lambda>song. \<lparr>metadata = song\<rparr>) songs) # rest
      \<and> (rest = [] \<or> rest = [SearchFinished ident])"
    using SearchDone_emitted [OF kept, of base songs] by simp
  have bound: "closures (snd (SimpleSearch (fst sp) query)) =
      closures (fst sp) @ [(length (network (fst sp)), SLOT_SimpleSearchFinished ?sid)]"
    using SimpleSearch_closure [of "fst sp" query] by (simp add: sid)
  have service: "\<exists>found. emitted s' \<noteq> [] \<and> last (emitted s') = SimpleSearchResults k found"
    if "SimpleSearchFinished qt env s rep k = Some (env', s')" for qt env s rep k env' s'
    using that by (rule SimpleSearchFinished_emits)
  show ?thesis
    unfolding sid using fresh stored kept gone emitted bound service by blast
qed

lemma example_run:
  "provider_emitted
     (snd (step SearchProvider_example
             (run SearchProvider_example
                (SearchAsync SearchProvider_example (logged_in, QobuzSearchProvider_new) 7 ''abba'')
                [Call_SearchAsync 8 ''beatles'', Emit_SimpleSearchResults 1 []])
             (Emit_SimpleSearchResults 0 [Song_default])))
   = [ResultsAvailable 8 [], SearchFinished 8,
      ResultsAvailable 7 [\<lparr>metadata = Song_default\<rparr>], SearchFinished 7]"
  by (simp add: run_def SearchAsync_def SimpleSearch_def CreateRequest_def NewClosure_def
      SearchDone_def take_pending_def MaybeSearchFinished_def SearchProvider_example_def
      QobuzSearchProvider_new_def logged_in_def QobuzService_new_def Let_def)

text \<open>
  Two searches are issued, for callers 7 and 8; the reply to the second arrives first.
  Each reply reaches the caller that issued its search.
\<close>

theorem search_reply_routed_to_caller_witness:
  "\<not> emits 0 (Call_SearchAsync 8 ''beatles'')
   \<and> \<not> emits 0 (Emit_SimpleSearchResults 1 [])
   \<and> calls [Call_SearchAsync 8 ''beatles'', Emit_SimpleSearchResults 1 []] = 1
   \<and> fst (SimpleSearch logged_in ''abba'') = 0
   \<and> (logged_in, QobuzSearchProvider_new)
       = run SearchProvider_example (logged_in, QobuzSearchProvider_new) []
   \<and> map_of (pending_searches (snd (logged_in, QobuzSearchProvider_new))) 0 = None
   \<and> map_of (pending_searches
        (snd (run SearchProvider_example
                (SearchAsync SearchProvider_example (logged_in, QobuzSearchProvider_new) 7 ''abba'')
                [Call_SearchAsync 8 ''beatles'', Emit_SimpleSearchResults 1 []]))) 0
      = Some \<lparr>orig_id = 7, tokens = [''abba'']\<rparr>
   \<and> provider_emitted
     (snd (step SearchProvider_example
             (run SearchProvider_example
                (SearchAsync SearchProvider_example (logged_in, QobuzSearchProvider_new) 7 ''abba'')
                [Call_SearchAsync 8 ''beatles'', Emit_SimpleSearchResults 1 []])
             (Emit_SimpleSearchResults 0 [Song_default])))
     = [ResultsAvailable 8 [], SearchFinished 8,
        ResultsAvailable 7 [\<lparr>metadata = Song_default\<rparr>], SearchFinished 7]
   \<and> SimpleSearchFinished Qt_example [] (snd (SimpleSearch logged_in ''abba'')) reply_tracks 0
       \<noteq> None
   \<and> last (emitted (snd (the (SimpleSearchFinished Qt_example []
               (snd (SimpleSearch logged_in ''abba'')) reply_tracks 0))))
       = SimpleSearchResults 0 [ExtractSong Qt_example song_only_streamable]"
proof -
  let ?evs = "[Call_SearchAsync 8 ''beatles'', Emit_SimpleSearchResults 1 []]"
  let ?sp = "(logged_in, QobuzSearchProvider_new)"
  have sid: "fst (SimpleSearch (fst ?sp) ''abba'') = 0"
    by (simp add: SimpleSearch_ident logged_in_def QobuzService_new_def)
  have h1: "\<forall>ev \<in> set ?evs. \<not> emits (fst (SimpleSearch (fst ?sp) ''abba'')) ev"
    unfolding sid by simp
  have h2: "calls ?evs < 2 ^ 32 - 1"
    by (simp add: calls_def)
  have tok: "TokenizeQuery SearchProvider_example ''abba'' = [''abba'']"
    by (simp add: SearchProvider_example_def)
  have r: "?sp = run SearchProvider_example ?sp []"
    by (simp add: run_def)
  have e: "pending_searches QobuzSearchProvider_new = []"
    by (simp add: QobuzSearchProvider_new_def)
  note t = search_reply_routed_to_caller [OF h1 h2, of SearchProvider_example 7 "[Song_default]"]
  from t r e have f: "map_of (pending_searches (snd ?sp)) 0 = None"
    unfolding sid by (simp add: calls_def)
  from t have k: "map_of (pending_searches
        (snd (run SearchProvider_example
                (SearchAsync SearchProvider_example ?sp 7 ''abba'') ?evs))) 0
      = Some \<lparr>orig_id = 7, tokens = [''abba'']\<rparr>"
    unfolding sid tok by simp
  have ok: "HttpStatusCode reply_tracks = NO_ERROR"
    by (simp add: reply_tracks_def NO_ERROR_def)
  have songs: "ExtractSongs Qt_example (map_value (toMap (parsed_body reply_tracks)) ''tracks'')
      = [ExtractSong Qt_example song_only_streamable]"
    by (simp add: ExtractSongs_filter reply_tracks_def map_value_def ExtractSong_valid_iff
        song_only_streamable_def song_not_streamable_def)
  have fin: "SimpleSearchFinished Qt_example [] (snd (SimpleSearch logged_in ''abba'')) reply_tracks 0
      = Some ([], emit (SimpleSearchResults 0 [ExtractSong Qt_example song_only_streamable])
                    (snd (SimpleSearch logged_in ''abba'')))"
    by (simp add: SimpleSearchFinished_def ExtractResult_ok ok songs)
  from t fin have l: "last (emitted (snd (the (SimpleSearchFinished Qt_example []
               (snd (SimpleSearch logged_in ''abba'')) reply_tracks 0))))
       = SimpleSearchResults 0 [ExtractSong Qt_example song_only_streamable]"
    by (simp add: emit_def)
  from sid r f k example_run fin l show ?thesis
    by (simp add: calls_def)
qed

end
